theory Spec2Isabelle
  imports Complex_Main
begin

section \<open>Python and numpy primitives used by mcu\<close>

text \<open>
  The exceptions the modelled code can raise. \<open>Exception\<close> with its argument tuple
  (\<^verbatim>\<open>raise Exception("WARNING:", lm, ...)\<close>) is \<open>GenericException\<close>, carrying the
  text parts of the tuple; the others are the built-in exceptions the interpreter or
  numpy raises by itself.
\<close>

datatype error =
    IndexError
  | ValueError
  | TypeError
  | AssertionError
  | AttributeError
  | UnboundLocalError
  | GenericException "string list"

text \<open>
  Indexing a sequence or one axis of an ndarray with an integer: a negative index counts
  from the end, anything outside \<open>-n \<le> i < n\<close> raises IndexError.
\<close>

definition py_index :: "'a list \<Rightarrow> int \<Rightarrow> error + 'a" where
  "py_index xs i =
     (if 0 \<le> i \<and> i < int (length xs) then Inr (xs ! nat i)
      else if - int (length xs) \<le> i \<and> i < 0 then Inr (xs ! nat (int (length xs) + i))
      else Inl IndexError)"

text \<open>\<^verbatim>\<open>np.count_nonzero\<close> of a boolean array.\<close>

definition count_nonzero :: "bool list \<Rightarrow> nat" where
  "count_nonzero occ = length (filter (\<lambda>b. b) occ)"

text \<open>
  \<^verbatim>\<open>np.argmax\<close> and \<^verbatim>\<open>np.argmin\<close> of a one-dimensional array: a scan that keeps the
  first position of the best value seen; an empty array raises ValueError. Energies are
  finite floats, read as reals: the scans only compare them.
\<close>

fun argmax_scan :: "nat \<Rightarrow> real \<Rightarrow> nat \<Rightarrow> real list \<Rightarrow> nat" where
  "argmax_scan best bv i [] = best"
| "argmax_scan best bv i (x # xs) =
     (if bv < x then argmax_scan i x (Suc i) xs else argmax_scan best bv (Suc i) xs)"

fun argmin_scan :: "nat \<Rightarrow> real \<Rightarrow> nat \<Rightarrow> real list \<Rightarrow> nat" where
  "argmin_scan best bv i [] = best"
| "argmin_scan best bv i (x # xs) =
     (if x < bv then argmin_scan i x (Suc i) xs else argmin_scan best bv (Suc i) xs)"

definition np_argmax :: "real list \<Rightarrow> error + nat" where
  "np_argmax xs = (case xs of [] \<Rightarrow> Inl ValueError | x # rest \<Rightarrow> Inr (argmax_scan 0 x 1 rest))"

definition np_argmin :: "real list \<Rightarrow> error + nat" where
  "np_argmin xs = (case xs of [] \<Rightarrow> Inl ValueError | x # rest \<Rightarrow> Inr (argmin_scan 0 x 1 rest))"

text \<open>
  Sequencing of statements that may raise: \<open>bindE m f\<close> runs \<open>m\<close> and, unless it
  raised, continues with \<open>f\<close> on its value. \<open>mapE\<close> runs a fallible step over a list,
  left to right, stopping at the first raise.
\<close>

definition bindE :: "error + 'a \<Rightarrow> ('a \<Rightarrow> error + 'b) \<Rightarrow> error + 'b" where
  "bindE m f = (case m of Inl e \<Rightarrow> Inl e | Inr x \<Rightarrow> f x)"

fun mapE :: "('a \<Rightarrow> error + 'b) \<Rightarrow> 'a list \<Rightarrow> error + 'b list" where
  "mapE f [] = Inr []"
| "mapE f (x # xs) = bindE (f x) (\<lambda>y. bindE (mapE f xs) (\<lambda>ys. Inr (y # ys)))"

text \<open>\<^verbatim>\<open>a[i,j]\<close> and \<^verbatim>\<open>a[i,j,k]\<close> on an ndarray.\<close>

definition np_index2 :: "'a list list \<Rightarrow> int \<Rightarrow> int \<Rightarrow> error + 'a" where
  "np_index2 a i j = bindE (py_index a i) (\<lambda>row. py_index row j)"

definition np_index3 :: "'a list list list \<Rightarrow> int \<Rightarrow> int \<Rightarrow> int \<Rightarrow> error + 'a" where
  "np_index3 a i j k = bindE (py_index a i) (\<lambda>plane. np_index2 plane j k)"

section \<open>mcu/vasp/main.py: the band gap\<close>

text \<open>
  What \<^verbatim>\<open>get_bandgap\<close> and \<^verbatim>\<open>_generate_band\<close> read of a \<^verbatim>\<open>read.vasprun\<close> object:
  \<^verbatim>\<open>vasprun.band\<close> after \<^verbatim>\<open>get_band()\<close>, an array indexed [spin, kpt, band] of
  (energy, occupation); \<^verbatim>\<open>kpoints['kpointlist']\<close> and \<^verbatim>\<open>kpoints['weights']\<close>;
  ISPIN and NBANDS of \<^verbatim>\<open>parameters['electronic']\<close>; the three rows of the reciprocal
  lattice \<^verbatim>\<open>cell_final[1]\<close>. An ndarray is a nested list whose rows all have the same
  length.
\<close>

type_synonym kpoint = "real \<times> real \<times> real"

record vasprun =
  band :: "(real \<times> real) list list list"
  kpointlist :: "kpoint list"
  weights :: "real list"
  ISPIN :: nat
  NBANDS :: nat
  cell_final_1 :: "kpoint \<times> kpoint \<times> kpoint"

text \<open>\<^verbatim>\<open>vasprun.band[:,:,:,0]\<close> and \<^verbatim>\<open>vasprun.band[:,:,:,1]\<close>.\<close>

definition band_energy :: "(real \<times> real) list list list \<Rightarrow> real list list list" where
  "band_energy b = map (map (map fst)) b"

definition band_occ :: "(real \<times> real) list list list \<Rightarrow> real list list list" where
  "band_occ b = map (map (map snd)) b"

text \<open>
  One row of \<^verbatim>\<open>bandedge[spin,kpt]\<close>: energy and occupation of the highest occupied
  band and of the band above it.
\<close>

record bandedge =
  homo_energy :: real
  homo_occ :: real
  lumo_energy :: real
  lumo_occ :: real

text \<open>
  The body of the loop over k-points (lines 147--154). \<^verbatim>\<open>homo_idx\<close> is a Python int:
  with no occupied band it is \<open>-1\<close> and indexes the last band; \<^verbatim>\<open>lumo_idx\<close> equal to
  the number of bands raises IndexError.
\<close>

definition bandedge_kpt ::
  "real list list list \<Rightarrow> real list list list \<Rightarrow> bool list list list \<Rightarrow> nat \<Rightarrow> nat
     \<Rightarrow> error + bandedge" where
  "bandedge_kpt band_arr co_occ co_occ_b spin kpt =
     bindE (np_index2 band_arr (int spin) (int kpt)) (\<lambda>band_kpt.
     bindE (np_index2 co_occ_b (int spin) (int kpt)) (\<lambda>occ.
     let homo_idx = int (count_nonzero occ) - 1;
         lumo_idx = homo_idx + 1
     in
     bindE (py_index band_kpt homo_idx) (\<lambda>he.
     bindE (np_index3 co_occ (int spin) (int kpt) homo_idx) (\<lambda>ho.
     bindE (py_index band_kpt lumo_idx) (\<lambda>le.
     bindE (np_index3 co_occ (int spin) (int kpt) lumo_idx) (\<lambda>lo.
     Inr \<lparr>homo_energy = he, homo_occ = ho, lumo_energy = le, lumo_occ = lo\<rparr>))))))"

text \<open>
  What one pass of the loop over spins (lines 145--174) prints and appends: the two
  indices, the \<^verbatim>\<open>direct\<close> flag, the k-points printed, the value appended to
  \<^verbatim>\<open>self.bandgap\<close>, and for an indirect gap the smaller of the two vertical gaps.
\<close>

record spin_gap =
  vbm_idx :: nat
  cbm_idx :: nat
  direct :: bool
  vbm_edge :: bandedge
  cbm_edge :: bandedge
  vbm_kpt :: kpoint
  cbm_kpt :: kpoint
  bandgap :: real
  direct_gap :: "real option"

definition bandgap_spin ::
  "real list list list \<Rightarrow> real list list list \<Rightarrow> bool list list list \<Rightarrow> kpoint list
     \<Rightarrow> nat \<Rightarrow> nat \<Rightarrow> error + spin_gap" where
  "bandgap_spin band_arr co_occ co_occ_b kpts nkpts spin =
     bindE (mapE (bandedge_kpt band_arr co_occ co_occ_b spin) [0..<nkpts]) (\<lambda>edges.
     bindE (np_argmax (map homo_energy edges)) (\<lambda>vi.
     bindE (np_argmin (map lumo_energy edges)) (\<lambda>ci.
     let is_direct = (if vi = ci then True else False) in
     bindE (py_index edges (int vi)) (\<lambda>ve.
     bindE (py_index kpts (int vi)) (\<lambda>vk.
     bindE (py_index edges (int ci)) (\<lambda>ce.
     bindE (py_index kpts (int ci)) (\<lambda>ck.
     let gap = lumo_energy ce - homo_energy ve;
         gap1 = lumo_energy ce - homo_energy ce;
         gap2 = lumo_energy ve - homo_energy ve
     in Inr \<lparr>vbm_idx = vi, cbm_idx = ci, direct = is_direct,
              vbm_edge = ve, cbm_edge = ce, vbm_kpt = vk, cbm_kpt = ck,
              bandgap = gap,
              direct_gap = (if is_direct then None
                            else Some (if gap1 > gap2 then gap2 else gap1))\<rparr>)))))))"

text \<open>Lines 142--174: one \<open>spin_gap\<close> per spin channel, in order.\<close>

definition bandgap_loop ::
  "real list list list \<Rightarrow> real list list list \<Rightarrow> bool list list list \<Rightarrow> kpoint list
     \<Rightarrow> nat \<Rightarrow> nat \<Rightarrow> error + spin_gap list" where
  "bandgap_loop band_arr co_occ co_occ_b kpts ispin nkpts =
     mapE (bandgap_spin band_arr co_occ co_occ_b kpts nkpts) [0..<ispin]"

text \<open>
  The Fermi level handed to \<^verbatim>\<open>get_bandgap\<close> once \<^verbatim>\<open>efermi\<close> is resolved (lines
  91--93): a float, a list of floats, or any other value, which fails both
  \<^verbatim>\<open>isinstance\<close> assertions.
\<close>

datatype fermi = FermiFloat real | FermiList "real list" | FermiOther

text \<open>The threshold of line 100, \<^verbatim>\<open>self.co_occ > 0.5\<close>, on one occupation.\<close>

definition occupied :: "real \<Rightarrow> bool" where
  "occupied occ \<longleftrightarrow> occ > 0.5"

text \<open>Lines 95--104 followed by lines 142--174: one vasprun.xml file.\<close>

definition get_bandgap_single :: "vasprun \<Rightarrow> fermi \<Rightarrow> error + spin_gap list" where
  "get_bandgap_single v efermi =
     (case efermi of
        FermiFloat ef \<Rightarrow>
          (let band_arr = band_energy (band v);
               co_occ = band_occ (band v);
               co_occ_b = map (map (map occupied)) co_occ;
               ispin = ISPIN v;
               kpts = kpointlist v;
               nkpts = length kpts
           in bandgap_loop band_arr co_occ co_occ_b kpts ispin nkpts)
      | _ \<Rightarrow> Inl AssertionError)"

text \<open>
  \<^verbatim>\<open>np.count_nonzero(weight)\<close> on the float array of k-point weights.
\<close>

definition count_nonzero_weights :: "real list \<Rightarrow> nat" where
  "count_nonzero_weights w = length (filter (\<lambda>x. x \<noteq> 0) w)"

text \<open>
  A two-dimensional array is the list of its rows. The number of its columns is the
  length of its rows; an array without rows still has a number of columns in numpy, which
  the list does not show: for the band array of a run it is taken to be the run's
  \<^verbatim>\<open>NBANDS\<close>, given as \<open>dflt\<close>.
\<close>

definition row_width :: "nat \<Rightarrow> 'a list list \<Rightarrow> nat" where
  "row_width dflt rows = (case rows of [] \<Rightarrow> dflt | row # rest \<Rightarrow> length row)"

text \<open>
  \<^verbatim>\<open>np.vstack([a, b])\<close> of an array \<open>a\<close> with \<open>ncols\<close> columns and an array \<open>b\<close> with
  \<open>bcols\<close> columns: numpy raises ValueError unless the two numbers agree, also when
  \<open>b\<close> has no rows.
\<close>

definition np_vstack :: "nat \<Rightarrow> 'a list list \<Rightarrow> nat \<Rightarrow> 'a list list \<Rightarrow> error + 'a list list" where
  "np_vstack ncols a bcols b =
     (if bcols = ncols \<and> list_all (\<lambda>row. length row = ncols) b then Inr (a @ b)
      else Inl ValueError)"

text \<open>
  The four arrays the loop over runs grows with \<^verbatim>\<open>np.vstack\<close> (lines 118--121 and
  131--134), each starting with one row of zeros (\<open>False\<close> for the boolean one).
\<close>

record stacked =
  st_bands :: "real list list"
  st_kptss :: "kpoint list"
  st_co_occ1 :: "real list list"
  st_co_occ2 :: "bool list list"

definition stacked_init :: "nat \<Rightarrow> stacked" where
  "stacked_init nbands =
     \<lparr>st_bands = [replicate nbands 0], st_kptss = [(0, 0, 0)],
      st_co_occ1 = [replicate nbands 0], st_co_occ2 = [replicate nbands False]\<rparr>"

text \<open>Lines 123--134: one run of the loop, for the spin channel \<open>spin\<close> and \<^verbatim>\<open>efermi[i]\<close>.\<close>

definition stack_run :: "nat \<Rightarrow> nat \<Rightarrow> stacked \<Rightarrow> vasprun \<times> real \<Rightarrow> error + stacked" where
  "stack_run nbands spin acc run =
     (let v = fst run; ef = snd run in
      bindE (py_index (band v) (int spin)) (\<lambda>plane.
      let band_s = map (map fst) plane;
          kpts = kpointlist v;
          weight = weights v;
          nonzero = count_nonzero_weights weight;
          width = row_width (NBANDS v) plane;
          kpts' = drop nonzero kpts;
          band' = drop nonzero band_s;
          co_occ = map (map snd) (drop nonzero plane);
          co_occ_b = map (map (\<lambda>e. e < ef)) band'
      in
      bindE (np_vstack nbands (st_bands acc) width band') (\<lambda>bands.
      let kptss = st_kptss acc @ kpts' in
      bindE (np_vstack nbands (st_co_occ1 acc) width co_occ) (\<lambda>co_occ1.
      bindE (np_vstack nbands (st_co_occ2 acc) width co_occ_b) (\<lambda>co_occ2.
      Inr \<lparr>st_bands = bands, st_kptss = kptss,
           st_co_occ1 = co_occ1, st_co_occ2 = co_occ2\<rparr>)))))"

fun stack_runs :: "nat \<Rightarrow> nat \<Rightarrow> stacked \<Rightarrow> (vasprun \<times> real) list \<Rightarrow> error + stacked" where
  "stack_runs nbands spin acc [] = Inr acc"
| "stack_runs nbands spin acc (run # rest) =
     bindE (stack_run nbands spin acc run) (\<lambda>acc'. stack_runs nbands spin acc' rest)"

text \<open>
  Lines 118--137: the body of the loop over spins; the leading rows of zeros are cut off
  by \<^verbatim>\<open>bands[1:]\<close> and its like.
\<close>

definition stack_spin :: "nat \<Rightarrow> vasprun list \<Rightarrow> real list \<Rightarrow> nat \<Rightarrow> error + stacked" where
  "stack_spin nbands runs efermi spin =
     bindE (stack_runs nbands spin (stacked_init nbands) (zip runs efermi)) (\<lambda>acc.
     Inr \<lparr>st_bands = drop 1 (st_bands acc), st_kptss = drop 1 (st_kptss acc),
          st_co_occ1 = drop 1 (st_co_occ1 acc), st_co_occ2 = drop 1 (st_co_occ2 acc)\<rparr>)"

text \<open>
  What \<^verbatim>\<open>get_bandgap\<close> leaves on the object: \<^verbatim>\<open>self.kpts\<close>, \<^verbatim>\<open>self.band\<close>,
  \<^verbatim>\<open>self.co_occ\<close>, \<^verbatim>\<open>self.co_occ_\<close>, and per spin channel what was printed and appended
  to \<^verbatim>\<open>self.bandgap\<close>.
\<close>

record bandgap_state =
  self_kpts :: "kpoint list"
  self_band :: "real list list list"
  self_co_occ :: "real list list list"
  self_co_occ_b :: "bool list list list"
  self_gaps :: "spin_gap list"

text \<open>Lines 95--104 followed by lines 142--174, with the attributes set on the way.\<close>

definition get_bandgap_one :: "vasprun \<Rightarrow> fermi \<Rightarrow> error + bandgap_state" where
  "get_bandgap_one v efermi =
     bindE (get_bandgap_single v efermi) (\<lambda>gaps.
     Inr \<lparr>self_kpts = kpointlist v, self_band = band_energy (band v),
          self_co_occ = band_occ (band v),
          self_co_occ_b = map (map (map occupied)) (band_occ (band v)),
          self_gaps = gaps\<rparr>)"

text \<open>
  Lines 105--140 followed by lines 142--174: a list of vasprun.xml files. The assertion
  loop reads \<^verbatim>\<open>efermi[i]\<close> for every run, so a shorter list raises IndexError; an empty
  list of runs raises IndexError at \<^verbatim>\<open>self.vasprun[0]\<close>; with ISPIN 0 the loop over spins
  never binds \<^verbatim>\<open>kptss\<close>, which line 138 then reads.
\<close>

definition get_bandgap_multi :: "vasprun list \<Rightarrow> fermi \<Rightarrow> error + bandgap_state" where
  "get_bandgap_multi runs efermi =
     (case efermi of
        FermiList efs \<Rightarrow>
          if length efs < length runs then Inl IndexError
          else
            bindE (py_index runs 0) (\<lambda>first.
            let nbands = NBANDS first; ispin = ISPIN first in
            bindE (mapE (stack_spin nbands runs efs) [0..<ispin]) (\<lambda>per_spin.
            if per_spin = [] then Inl UnboundLocalError
            else
              let kpts = st_kptss (last per_spin);
                  band_arr = map st_bands per_spin;
                  nkpts = length kpts;
                  co_occ = map st_co_occ1 per_spin;
                  co_occ_b = map st_co_occ2 per_spin
              in
              bindE (bandgap_loop band_arr co_occ co_occ_b kpts ispin nkpts) (\<lambda>gaps.
              Inr \<lparr>self_kpts = kpts, self_band = band_arr, self_co_occ = co_occ,
                   self_co_occ_b = co_occ_b, self_gaps = gaps\<rparr>)))
      | _ \<Rightarrow> Inl AssertionError)"

text \<open>\<^verbatim>\<open>self.vasprun\<close>: one \<^verbatim>\<open>read.vasprun\<close> object or a list of them.\<close>

datatype 'v loaded = One 'v | Many "'v list"

definition get_bandgap :: "vasprun loaded \<Rightarrow> fermi \<Rightarrow> error + bandgap_state" where
  "get_bandgap self_vasprun efermi =
     (case self_vasprun of
        One v \<Rightarrow> get_bandgap_one v efermi
      | Many runs \<Rightarrow> get_bandgap_multi runs efermi)"

section \<open>mcu/vasp/main.py: collecting the bands of several runs\<close>

text \<open>
  \<^verbatim>\<open>_generate_band\<close> for a list of runs and no label (lines 233--262 and 280). One pass
  of the loop (lines 243--251) reads \<^verbatim>\<open>run.band[spin]\<close> with the caller's \<^verbatim>\<open>spin\<close>, a
  Python int, cuts the first \<^verbatim>\<open>nonzero\<close> rows, shifts by \<^verbatim>\<open>efermi[i]\<close> and stacks.
\<close>

definition band_stack_run ::
  "nat \<Rightarrow> int \<Rightarrow> real list \<Rightarrow> nat \<Rightarrow> real list list \<times> kpoint list \<Rightarrow> vasprun
     \<Rightarrow> error + real list list \<times> kpoint list" where
  "band_stack_run nbands spin efermi i acc run =
     bindE (py_index (band run) spin) (\<lambda>plane.
     let band_s = map (map fst) plane;
         kpts = kpointlist run;
         weight = weights run;
         nonzero = count_nonzero_weights weight;
         width = row_width (NBANDS run) plane;
         kpts' = drop nonzero kpts;
         band' = drop nonzero band_s
     in
     bindE (py_index efermi (int i)) (\<lambda>ef.
     let band'' = map (map (\<lambda>e. e - ef)) band' in
     bindE (np_vstack nbands (fst acc) width band'') (\<lambda>bands.
     Inr (bands, snd acc @ kpts'))))"

fun band_stack_runs ::
  "nat \<Rightarrow> int \<Rightarrow> real list \<Rightarrow> nat \<Rightarrow> real list list \<times> kpoint list \<Rightarrow> vasprun list
     \<Rightarrow> error + real list list \<times> kpoint list" where
  "band_stack_runs nbands spin efermi i acc [] = Inr acc"
| "band_stack_runs nbands spin efermi i acc (run # rest) =
     bindE (band_stack_run nbands spin efermi i acc run) (\<lambda>acc'.
     band_stack_runs nbands spin efermi (Suc i) acc' rest)"

text \<open>\<^verbatim>\<open>kpts.dot(b)\<close> for one k-point, the distance of two points, and \<^verbatim>\<open>cumsum\<close>.\<close>

definition dot_lattice :: "kpoint \<Rightarrow> kpoint \<times> kpoint \<times> kpoint \<Rightarrow> kpoint" where
  "dot_lattice k b =
     (case k of (k1, k2, k3) \<Rightarrow>
      case b of ((a11, a12, a13), (a21, a22, a23), (a31, a32, a33)) \<Rightarrow>
        (k1 * a11 + k2 * a21 + k3 * a31,
         k1 * a12 + k2 * a22 + k3 * a32,
         k1 * a13 + k2 * a23 + k3 * a33))"

definition kpt_distance :: "kpoint \<Rightarrow> kpoint \<Rightarrow> real" where
  "kpt_distance p q =
     (case p of (p1, p2, p3) \<Rightarrow> case q of (q1, q2, q3) \<Rightarrow>
        sqrt ((p1 - q1)\<^sup>2 + (p2 - q2)\<^sup>2 + (p3 - q3)\<^sup>2))"

fun cumsum :: "real \<Rightarrow> real list \<Rightarrow> real list" where
  "cumsum acc [] = []"
| "cumsum acc (x # xs) = (acc + x) # cumsum (acc + x) xs"

text \<open>
  The assertion loop of lines 235--236 runs over \<^verbatim>\<open>len(self.vasprun)\<close>, the length of
  the object's own list, given here as \<open>n_self\<close>; \<^verbatim>\<open>temp_kpts[0]\<close> raises IndexError when
  no k-point is left. The result is \<^verbatim>\<open>band\<close> with the local \<^verbatim>\<open>kpts\<close> of line 253, and
  \<^verbatim>\<open>path\<close>.
\<close>

definition generate_band_list ::
  "nat \<Rightarrow> vasprun list \<Rightarrow> fermi \<Rightarrow> int \<Rightarrow> error + (real list list \<times> kpoint list) \<times> real list" where
  "generate_band_list n_self runs efermi spin =
     (case efermi of
        FermiList efs \<Rightarrow>
          if length efs < n_self then Inl IndexError
          else
            bindE (py_index runs 0) (\<lambda>first.
            let nbands = NBANDS first in
            bindE (band_stack_runs nbands spin efs 0 ([replicate nbands 0], [(0, 0, 0)]) runs)
              (\<lambda>stacked.
            let kpts = drop 1 (snd stacked);
                band_arr = drop 1 (fst stacked);
                b = cell_final_1 first;
                abs_kpts = map (\<lambda>k. dot_lattice k b) kpts
            in
            if abs_kpts = [] then Inl IndexError
            else
              let temp_kpts = hd abs_kpts # butlast abs_kpts;
                  path = cumsum 0 (map2 kpt_distance temp_kpts abs_kpts)
              in Inr ((band_arr, kpts), path)))
      | _ \<Rightarrow> Inl AssertionError)"

section \<open>mcu/vasp/main.py: loading a list of runs\<close>

text \<open>
  \<^verbatim>\<open>VASP.__init__\<close> for a list of names (lines 24--45). \<^verbatim>\<open>utils.check_exist\<close>,
  \<^verbatim>\<open>read.vasprun\<close> and \<^verbatim>\<open>read.OUTCAR\<close> live outside these sources and are parameters:
  the file system as a predicate on paths, the two readers as functions that may raise.
  \<^verbatim>\<open>get_info\<close> copies fields of the first run and is a parameter too. Each \<^verbatim>\<open>print\<close> call
  is recorded as the list of its arguments.
\<close>

definition xml_path :: "string \<Rightarrow> string \<Rightarrow> string" where
  "xml_path path xml = path @ ''/'' @ xml @ ''.xml''"

definition outcar_path :: "string \<Rightarrow> string \<Rightarrow> string" where
  "outcar_path path outcar = path @ ''/'' @ outcar"

text \<open>
  Lines 26--31: the loop over \<^verbatim>\<open>vaspruns\<close>, with \<open>acc\<close> the list \<^verbatim>\<open>self.vasprun\<close> so far.
  It ends at the first file that does not exist, after printing; the result is the list
  and what was printed.
\<close>

fun load_vaspruns ::
  "(string \<Rightarrow> bool) \<Rightarrow> (string \<Rightarrow> error + 'v) \<Rightarrow> string \<Rightarrow> 'v list \<Rightarrow> string list
     \<Rightarrow> error + 'v list \<times> string list list" where
  "load_vaspruns check_exist read_vasprun path acc [] = Inr (acc, [])"
| "load_vaspruns check_exist read_vasprun path acc (xml # rest) =
     (if \<not> check_exist (xml_path path xml)
      then Inr (acc, [[''Cannot find:'', xml_path path xml]])
      else bindE (read_vasprun (xml_path path xml)) (\<lambda>v.
           load_vaspruns check_exist read_vasprun path (acc @ [v]) rest))"

text \<open>Lines 39--45: the loop over \<^verbatim>\<open>outcars\<close>.\<close>

fun load_outcars ::
  "(string \<Rightarrow> bool) \<Rightarrow> (string \<Rightarrow> error + 'o) \<Rightarrow> string \<Rightarrow> 'o list \<Rightarrow> string list
     \<Rightarrow> error + 'o list \<times> string list list" where
  "load_outcars check_exist read_OUTCAR path acc [] = Inr (acc, [])"
| "load_outcars check_exist read_OUTCAR path acc (outcar # rest) =
     (if \<not> check_exist (outcar_path path outcar)
      then Inr (acc, [[''Cannot find:'', outcar_path path outcar]])
      else bindE (read_OUTCAR (outcar_path path outcar)) (\<lambda>oc.
           load_outcars check_exist read_OUTCAR path (acc @ [oc]) rest))"

text \<open>
  The \<^verbatim>\<open>outcars\<close> argument: \<^verbatim>\<open>None\<close>, a list of names, or a single name, which fails
  the assertion of line 36.
\<close>

datatype outcars_arg = OutcarNone | OutcarName string | OutcarNames "string list"

text \<open>
  The attributes \<^verbatim>\<open>__init__\<close> sets: \<^verbatim>\<open>self.vasprun\<close>, what \<^verbatim>\<open>get_info\<close> stored,
  \<^verbatim>\<open>self.outcar\<close> and \<^verbatim>\<open>self.useOUTCAR\<close> (\<open>None\<close> while never assigned).
\<close>

record ('v, 'o, 'i) vasp_object =
  attr_vasprun :: "'v list"
  attr_info :: 'i
  attr_outcar :: "'o list option"
  attr_useOUTCAR :: "bool option"

text \<open>
  Lines 24--45. The result is what was printed, and either the exception that ended
  \<^verbatim>\<open>__init__\<close> or the object. \<^verbatim>\<open>self.vasprun[0]\<close> raises IndexError when nothing was
  loaded; \<^verbatim>\<open>self.useOUTCAR\<close> is assigned after each OUTCAR that is appended.
\<close>

definition init_list ::
  "(string \<Rightarrow> bool) \<Rightarrow> (string \<Rightarrow> error + 'v) \<Rightarrow> (string \<Rightarrow> error + 'o) \<Rightarrow> ('v \<Rightarrow> 'i)
     \<Rightarrow> string \<Rightarrow> string list \<Rightarrow> outcars_arg
     \<Rightarrow> string list list \<times> (error + ('v, 'o, 'i) vasp_object)" where
  "init_list check_exist read_vasprun read_OUTCAR get_info path vaspruns outcars =
     (case load_vaspruns check_exist read_vasprun path [] vaspruns of
        Inl e \<Rightarrow> ([], Inl e)
      | Inr (runs, out1) \<Rightarrow>
     (case py_index runs 0 of
        Inl e \<Rightarrow> (out1, Inl e)
      | Inr first \<Rightarrow>
     (case outcars of
        OutcarNone \<Rightarrow>
          (out1, Inr \<lparr>attr_vasprun = runs, attr_info = get_info first,
                      attr_outcar = None, attr_useOUTCAR = None\<rparr>)
      | OutcarName name \<Rightarrow> (out1, Inl AssertionError)
      | OutcarNames names \<Rightarrow>
          if length names \<noteq> length vaspruns then (out1, Inl AssertionError)
          else
            (case load_outcars check_exist read_OUTCAR path [] names of
               Inl e \<Rightarrow> (out1, Inl e)
             | Inr (ocs, out2) \<Rightarrow>
                 (out1 @ out2,
                  Inr \<lparr>attr_vasprun = runs, attr_info = get_info first,
                       attr_outcar = Some ocs,
                       attr_useOUTCAR = (if ocs = [] then None else Some True)\<rparr>)))))"

section \<open>mcu/vasp/main.py: orbital labels of the projected bands\<close>

text \<open>
  \<^verbatim>\<open>_generate_pband\<close> from line 385 on: the \<^verbatim>\<open>lm\<close> argument is checked and expanded,
  then each orbital name is looked up in \<^verbatim>\<open>lm_list\<close> (the orbital names of the run) and
  each atom in \<^verbatim>\<open>self.atom\<close>. \<^verbatim>\<open>lm\<close> is a string, a list whose items are strings or
  lists of strings, or something else.
\<close>

datatype lm_item = Orb string | Orbs "string list"

datatype lm_arg = LmStr string | LmList "lm_item list" | LmOther

definition p_orbitals :: "string list" where
  "p_orbitals = [''px'', ''py'', ''pz'']"

definition d_orbitals :: "string list" where
  "d_orbitals = [''dxy'', ''dyz'', ''dz2'', ''dxz'', ''dx2-y2'']"

text \<open>Line 386 and line 497.\<close>

definition lm_shortcut_1 :: "string list" where
  "lm_shortcut_1 = [''p'', ''d'', ''sp'', ''ps'', ''pd'', ''dp'', ''sd'', ''ds'',
                    ''spd'', ''sdp'', ''psd'', ''pds'', ''dsp'', ''dps'']"

definition lm_shortcut_3 :: "string list" where
  "lm_shortcut_3 = [''sp'', ''sd'', ''pd'']"

text \<open>Lines 392--421: the chain of comparisons that expands a shortcut.\<close>

definition expand_lm_1 :: "string \<Rightarrow> lm_item list" where
  "expand_lm_1 lm =
     (if lm = ''p'' then [Orbs p_orbitals]
      else if lm = ''d'' then [Orbs d_orbitals]
      else if lm = ''sp'' then [Orb ''s'', Orbs p_orbitals]
      else if lm = ''ps'' then [Orbs p_orbitals, Orb ''s'']
      else if lm = ''sd'' then [Orb ''s'', Orbs d_orbitals]
      else if lm = ''ds'' then [Orbs d_orbitals, Orb ''s'']
      else if lm = ''pd'' then [Orbs p_orbitals, Orbs d_orbitals]
      else if lm = ''dp'' then [Orbs d_orbitals, Orbs p_orbitals]
      else if lm = ''spd'' then [Orb ''s'', Orbs p_orbitals, Orbs d_orbitals]
      else if lm = ''sdp'' then [Orb ''s'', Orbs d_orbitals, Orbs p_orbitals]
      else if lm = ''psd'' then [Orbs p_orbitals, Orb ''s'', Orbs d_orbitals]
      else if lm = ''pds'' then [Orbs p_orbitals, Orbs d_orbitals, Orb ''s'']
      else if lm = ''dsp'' then [Orbs d_orbitals, Orb ''s'', Orbs p_orbitals]
      else if lm = ''dps'' then [Orbs d_orbitals, Orbs p_orbitals, Orb ''s'']
      else [Orb lm])"

text \<open>The names in a list argument, for the text of an exception that quotes it.\<close>

fun item_names :: "lm_item \<Rightarrow> string list" where
  "item_names (Orb s) = [s]"
| "item_names (Orbs os) = os"

text \<open>
  Lines 423--430 (and 512--519): every name of a list argument must be in \<^verbatim>\<open>lm_list\<close>;
  the first that is not raises. \<open>whole\<close> is the list argument as the message quotes it.
\<close>

fun check_items :: "string list \<Rightarrow> string list \<Rightarrow> lm_item list \<Rightarrow> error + unit" where
  "check_items lm_list whole [] = Inr ()"
| "check_items lm_list whole (Orb s # rest) =
     (if s \<notin> set lm_list
      then Inl (GenericException
                 ([''WARNING:''] @ whole @ [''is not recognizable. lm must be one of these'']
                   @ lm_list))
      else check_items lm_list whole rest)"
| "check_items lm_list whole (Orbs os # rest) =
     (case find (\<lambda>orb. orb \<notin> set lm_list) os of
        Some orb \<Rightarrow>
          Inl (GenericException
                ([''WARNING:'', orb, ''is not recognizable. lm must be one of these''] @ lm_list))
      | None \<Rightarrow> check_items lm_list whole rest)"

text \<open>\<^verbatim>\<open>lm_list.index(name)\<close>: the first position of the name, ValueError when absent.\<close>

fun py_list_index :: "string list \<Rightarrow> string \<Rightarrow> error + nat" where
  "py_list_index [] name = Inl ValueError"
| "py_list_index (x # xs) name =
     (if x = name then Inr 0 else bindE (py_list_index xs name) (\<lambda>i. Inr (Suc i)))"

text \<open>Lines 438--447 (and 526--535): the columns of \<^verbatim>\<open>proj_wf\<close> one item of \<^verbatim>\<open>lm\<close> sums.\<close>

fun item_columns :: "string list \<Rightarrow> lm_item \<Rightarrow> error + nat list" where
  "item_columns lm_list (Orb s) = bindE (py_list_index lm_list s) (\<lambda>i. Inr [i])"
| "item_columns lm_list (Orbs os) = mapE (py_list_index lm_list) os"

text \<open>\<^verbatim>\<open>str.split(sep)\<close> with a one-character separator.\<close>

fun py_split :: "char \<Rightarrow> string \<Rightarrow> string list" where
  "py_split sep [] = [[]]"
| "py_split sep (c # cs) =
     (if c = sep then [] # py_split sep cs
      else (case py_split sep cs of
              [] \<Rightarrow> [[c]]
            | w # ws \<Rightarrow> (c # w) # ws))"

text \<open>
  Lines 452--463 (and 470--481) for one label \<^verbatim>\<open>'atom:lm,lm'\<close>: unpacking
  \<^verbatim>\<open>lm.split(':')\<close> into two names raises ValueError unless there are exactly two parts;
  \<^verbatim>\<open>'p'\<close> and \<^verbatim>\<open>'d'\<close> stand for their orbitals.
\<close>

definition expand_pd :: "string \<Rightarrow> string list" where
  "expand_pd name =
     (if name = ''p'' then p_orbitals else if name = ''d'' then d_orbitals else [name])"

definition parse_atom_label :: "string \<Rightarrow> error + string \<times> string list" where
  "parse_atom_label lm =
     (case py_split CHR '':'' lm of
        [atom, lm_] \<Rightarrow> Inr (atom, concat (map expand_pd (py_split CHR '','' lm_)))
      | _ \<Rightarrow> Inl ValueError)"

text \<open>
  Lines 486--493 for one parsed label: the indices of the atoms of that name, then the
  columns of its orbitals; with no such atom \<^verbatim>\<open>proj_val_atom\<close> is still the int 0 and
  subscripting it raises TypeError.
\<close>

definition atom_columns ::
  "string list \<Rightarrow> string list \<Rightarrow> string \<times> string list \<Rightarrow> error + nat list \<times> nat list" where
  "atom_columns lm_list atoms label =
     (let idx_atom = filter (\<lambda>idx. fst label = atoms ! idx) [0..<length atoms] in
      bindE (mapE (py_list_index lm_list) (snd label)) (\<lambda>idx_lm.
      if idx_atom = [] \<and> idx_lm \<noteq> [] then Inl TypeError else Inr (idx_atom, idx_lm)))"

text \<open>
  What the arithmetic of each style then sums: per item the columns of \<^verbatim>\<open>proj_wf\<close>
  (styles 1 and 3), or per label the atoms and the columns (style 2). The arithmetic
  itself raises nothing more and is left out.
\<close>

datatype pband_columns =
    Style1 "nat list list"
  | Style2 "(nat list \<times> nat list) list"
  | Style3 "nat list list"

text \<open>
  Lines 385--541. \<open>self_vasprun_is_list\<close> tells whether \<^verbatim>\<open>self.vasprun\<close> is a list, in
  which case \<^verbatim>\<open>self.vasprun.atom\<close> (line 468) raises AttributeError, as does
  \<^verbatim>\<open>orb.split\<close> on an item that is a list; in style 2 an argument that is neither a
  string nor a list leaves \<^verbatim>\<open>atoms\<close> unbound.
\<close>

definition generate_pband ::
  "int \<Rightarrow> bool \<Rightarrow> string list \<Rightarrow> string list \<Rightarrow> lm_arg \<Rightarrow> error + pband_columns" where
  "generate_pband style self_vasprun_is_list lm_list atoms lm =
     (if style = 1 then
        bindE
          (case lm of
             LmStr s \<Rightarrow>
               if s \<notin> set lm_list \<and> s \<notin> set lm_shortcut_1
               then Inl (GenericException
                          ([''WARNING:'', s, ''is not recognizable. lm must be'']
                            @ lm_list @ lm_shortcut_1))
               else Inr (expand_lm_1 s)
           | LmList items \<Rightarrow>
               bindE (check_items lm_list (concat (map item_names items)) items)
                 (\<lambda>_. Inr items)
           | LmOther \<Rightarrow> Inl (GenericException [''lm is not recognizable'']))
          (\<lambda>items. bindE (mapE (item_columns lm_list) items) (\<lambda>cols. Inr (Style1 cols)))
      else if style = 2 then
        bindE
          (case lm of
             LmStr s \<Rightarrow> bindE (parse_atom_label s) (\<lambda>label. Inr [label])
           | LmList items \<Rightarrow>
               if self_vasprun_is_list then Inl AttributeError
               else mapE (\<lambda>item. case item of
                                     Orb s \<Rightarrow> parse_atom_label s
                                   | Orbs os \<Rightarrow> Inl AttributeError) items
           | LmOther \<Rightarrow> Inl UnboundLocalError)
          (\<lambda>labels. bindE (mapE (atom_columns lm_list atoms) labels) (\<lambda>cols. Inr (Style2 cols)))
      else if style = 3 then
        bindE
          (case lm of
             LmStr s \<Rightarrow>
               if s \<notin> set lm_shortcut_3
               then Inl (GenericException
                          ([''WARNING:'', s, ''is not recognizable. lm must be'']
                            @ lm_shortcut_3))
               else if s = ''sp'' then Inr [Orb ''s'', Orbs p_orbitals]
               else if s = ''sd'' then Inr [Orb ''s'', Orbs d_orbitals]
               else if s = ''pd'' then Inr [Orbs p_orbitals, Orbs d_orbitals]
               else Inl (GenericException
                          ([''WARNING:'', s, ''is not recognizable. lm must be one of these'']
                            @ lm_shortcut_3 @ [''or a list'']))
           | LmList items \<Rightarrow>
               if length items \<noteq> 2 then Inl AssertionError
               else bindE (check_items lm_list (concat (map item_names items)) items)
                      (\<lambda>_. Inr items)
           | LmOther \<Rightarrow> Inl (GenericException [''lm is not recognizable'']))
          (\<lambda>items. bindE (mapE (item_columns lm_list) items) (\<lambda>cols. Inr (Style3 cols)))
      else Inl (GenericException [''mcu currently supports only style: 0,1,2'']))"

section \<open>mcu/wannier90/pywannier90_vasp.py: floats and arrays\<close>

text \<open>
  A numpy float is a real number or nan: \<open>Some x\<close> is the finite value \<open>x\<close>, \<open>None\<close> is
  the nan that numpy produces (with a warning, not an exception) for \<open>0/0\<close>, for the
  square root of a negative number, for \<^verbatim>\<open>arccos\<close> outside \<open>[-1, 1]\<close> and for a fractional
  power of a negative number; nan propagates through arithmetic and every comparison
  with nan is false. Rounding is not modelled: finite values are exact. A quotient with
  divisor zero is \<open>None\<close> as well (numpy gives nan or an infinity there).
\<close>

type_synonym np_float = "real option"

definition fl1 :: "(real \<Rightarrow> real) \<Rightarrow> np_float \<Rightarrow> np_float" where
  "fl1 f a = (case a of None \<Rightarrow> None | Some x \<Rightarrow> Some (f x))"

definition fl2 :: "(real \<Rightarrow> real \<Rightarrow> real) \<Rightarrow> np_float \<Rightarrow> np_float \<Rightarrow> np_float" where
  "fl2 f a b = (case a of None \<Rightarrow> None | Some x \<Rightarrow> (case b of None \<Rightarrow> None | Some y \<Rightarrow> Some (f x y)))"

definition fadd :: "np_float \<Rightarrow> np_float \<Rightarrow> np_float" where
  "fadd = fl2 (\<lambda>x y. x + y)"

definition fsub :: "np_float \<Rightarrow> np_float \<Rightarrow> np_float" where
  "fsub = fl2 (\<lambda>x y. x - y)"

definition fmul :: "np_float \<Rightarrow> np_float \<Rightarrow> np_float" where
  "fmul = fl2 (\<lambda>x y. x * y)"

definition fdiv :: "np_float \<Rightarrow> np_float \<Rightarrow> np_float" where
  "fdiv a b = (case b of None \<Rightarrow> None | Some y \<Rightarrow> if y = 0 then None else fl1 (\<lambda>x. x / y) a)"

definition fsqrt :: "np_float \<Rightarrow> np_float" where
  "fsqrt a = (case a of None \<Rightarrow> None | Some x \<Rightarrow> if x < 0 then None else Some (sqrt x))"

definition farccos :: "np_float \<Rightarrow> np_float" where
  "farccos a =
     (case a of None \<Rightarrow> None | Some x \<Rightarrow> if -1 \<le> x \<and> x \<le> 1 then Some (arccos x) else None)"

text \<open>\<^verbatim>\<open>zona**(3/2)\<close>: the exponent is the Python 3 quotient 1.5.\<close>

definition fpow_3_2 :: "np_float \<Rightarrow> np_float" where
  "fpow_3_2 a = (case a of None \<Rightarrow> None | Some x \<Rightarrow> if x < 0 then None else Some (x powr (3/2)))"

definition flt :: "np_float \<Rightarrow> np_float \<Rightarrow> bool" where
  "flt a b = (case a of None \<Rightarrow> False | Some x \<Rightarrow> (case b of None \<Rightarrow> False | Some y \<Rightarrow> x < y))"

text \<open>
  One-dimensional arrays are lists; the elementwise operations of numpy on two arrays of
  the same shape, and of a scalar with an array.
\<close>

type_synonym np_array = "np_float list"

definition arr_add :: "np_array \<Rightarrow> np_array \<Rightarrow> np_array" where
  "arr_add a b = map2 fadd a b"

definition arr_sub :: "np_array \<Rightarrow> np_array \<Rightarrow> np_array" where
  "arr_sub a b = map2 fsub a b"

definition arr_mul :: "np_array \<Rightarrow> np_array \<Rightarrow> np_array" where
  "arr_mul a b = map2 fmul a b"

definition arr_scale :: "real \<Rightarrow> np_array \<Rightarrow> np_array" where
  "arr_scale c a = map (fmul (Some c)) a"

definition arr_neg :: "np_array \<Rightarrow> np_array" where
  "arr_neg a = map (fl1 uminus) a"

definition arr_cos :: "np_array \<Rightarrow> np_array" where
  "arr_cos a = map (fl1 cos) a"

definition arr_sin :: "np_array \<Rightarrow> np_array" where
  "arr_sin a = map (fl1 sin) a"

definition arr_pow :: "np_array \<Rightarrow> nat \<Rightarrow> np_array" where
  "arr_pow a n = map (fl1 (\<lambda>x. x ^ n)) a"

text \<open>\<^verbatim>\<open>sint = np.sqrt(1 - cost**2)\<close>.\<close>

definition sint_of :: "np_array \<Rightarrow> np_array" where
  "sint_of cost = map (\<lambda>c. fsqrt (fsub (Some 1) (fl1 (\<lambda>x. x\<^sup>2) c))) cost"

section \<open>pywannier90_vasp.py: radial and angular functions\<close>

text \<open>
  \<^verbatim>\<open>R_r\<close> (lines 111--124) on an array of radii; \<open>r\<close> is a Python int. The three
  branches are written out per radius.
\<close>

definition R_r :: "np_array \<Rightarrow> int \<Rightarrow> np_float \<Rightarrow> np_array" where
  "R_r r_norm r zona =
     (if r = 1 then
        map (\<lambda>x. fmul (fmul (Some 2) (fpow_3_2 zona))
                    (fl1 exp (fl1 uminus (fmul zona x)))) r_norm
      else if r = 2 then
        map (\<lambda>x. fmul (fmul (fmul (Some (1 / 2 / sqrt 2)) (fpow_3_2 zona))
                          (fsub (Some 2) (fmul zona x)))
                    (fl1 exp (fdiv (fl1 uminus (fmul zona x)) (Some 2)))) r_norm
      else
        map (\<lambda>x. fmul (fmul (fmul (Some (sqrt (4 / 27))) (fpow_3_2 zona))
                          (fadd (fsub (Some 1) (fdiv (fmul (fmul (Some 2) zona) x) (Some 3)))
                                (fdiv (fmul (fmul (Some 2) (fl1 (\<lambda>z. z\<^sup>2) zona))
                                            (fl1 (\<lambda>y. y\<^sup>2) x))
                                      (Some 27))))
                    (fl1 exp (fdiv (fl1 uminus (fmul zona x)) (Some 3)))) r_norm)"

text \<open>
  \<^verbatim>\<open>theta\<close> (lines 126--175): the chain of comparisons on the name; a name that matches
  none leaves the local \<^verbatim>\<open>theta\<close> unbound at the \<^verbatim>\<open>return\<close>. \<^verbatim>\<open>cost\<close> and \<^verbatim>\<open>phi\<close> are
  arrays of the same length.
\<close>

definition theta :: "string \<Rightarrow> np_array \<Rightarrow> np_array \<Rightarrow> error + np_array" where
  "theta func cost phi =
     (if func = ''s'' then
        Inr (arr_scale (1 / sqrt (4 * pi)) (replicate (length cost) (Some 1)))
      else if func = ''pz'' then
        Inr (arr_scale (sqrt (3 / 4 / pi)) cost)
      else if func = ''px'' then
        Inr (arr_mul (arr_scale (sqrt (3 / 4 / pi)) (sint_of cost)) (arr_cos phi))
      else if func = ''py'' then
        Inr (arr_mul (arr_scale (sqrt (3 / 4 / pi)) (sint_of cost)) (arr_sin phi))
      else if func = ''dz2'' then
        Inr (arr_scale (sqrt (5 / 16 / pi)) (map (fl1 (\<lambda>c. 3 * c\<^sup>2 - 1)) cost))
      else if func = ''dxz'' then
        Inr (arr_mul (arr_mul (arr_scale (sqrt (15 / 4 / pi)) (sint_of cost)) cost) (arr_cos phi))
      else if func = ''dyz'' then
        Inr (arr_mul (arr_mul (arr_scale (sqrt (15 / 4 / pi)) (sint_of cost)) cost) (arr_sin phi))
      else if func = ''dx2-y2'' then
        Inr (arr_mul (arr_scale (sqrt (15 / 16 / pi)) (arr_pow (sint_of cost) 2))
               (arr_cos (arr_scale 2 phi)))
      else if func = ''pxy'' then
        Inr (arr_mul (arr_scale (sqrt (15 / 16 / pi)) (arr_pow (sint_of cost) 2))
               (arr_sin (arr_scale 2 phi)))
      else if func = ''fz3'' then
        Inr (arr_scale (sqrt 7 / 4 / sqrt pi) (map (fl1 (\<lambda>c. 5 * c ^ 3 - 3 * c)) cost))
      else if func = ''fxz2'' then
        Inr (arr_mul (arr_mul (arr_scale (sqrt 21 / 4 / sqrt (2 * pi))
                                 (map (fl1 (\<lambda>c. 5 * c\<^sup>2 - 1)) cost))
                        (sint_of cost))
               (arr_cos phi))
      else if func = ''fyz2'' then
        Inr (arr_mul (arr_mul (arr_scale (sqrt 21 / 4 / sqrt (2 * pi))
                                 (map (fl1 (\<lambda>c. 5 * c\<^sup>2 - 1)) cost))
                        (sint_of cost))
               (arr_sin phi))
      else if func = ''fz(x2-y2)'' then
        Inr (arr_mul (arr_mul (arr_scale (sqrt 105 / 4 / sqrt pi) (arr_pow (sint_of cost) 2)) cost)
               (arr_cos (arr_scale 2 phi)))
      else if func = ''fxyz'' then
        Inr (arr_mul (arr_mul (arr_scale (sqrt 105 / 4 / sqrt pi) (arr_pow (sint_of cost) 2)) cost)
               (arr_sin (arr_scale 2 phi)))
      else if func = ''fx(x2-3y2)'' then
        Inr (arr_mul (arr_mul (arr_scale (sqrt 35 / 4 / sqrt (2 * pi)) (arr_pow (sint_of cost) 3))
                        (map (fl1 (\<lambda>p. (cos p)\<^sup>2 - 3 * (sin p)\<^sup>2)) phi))
               (arr_cos phi))
      else if func = ''fy(3x2-y2)'' then
        Inr (arr_mul (arr_mul (arr_scale (sqrt 35 / 4 / sqrt (2 * pi)) (arr_pow (sint_of cost) 3))
                        (map (fl1 (\<lambda>p. 3 * (cos p)\<^sup>2 - (sin p)\<^sup>2)) phi))
               (arr_sin phi))
      else Inl UnboundLocalError)"

text \<open>
  Arithmetic on the results of calls that may raise, operands evaluated left to right:
  the sum, the difference and the negation of arrays, and a float times an array.
\<close>

definition addE :: "error + np_array \<Rightarrow> error + np_array \<Rightarrow> error + np_array" where
  "addE a b = bindE a (\<lambda>x. bindE b (\<lambda>y. Inr (arr_add x y)))"

definition subE :: "error + np_array \<Rightarrow> error + np_array \<Rightarrow> error + np_array" where
  "subE a b = bindE a (\<lambda>x. bindE b (\<lambda>y. Inr (arr_sub x y)))"

definition negE :: "error + np_array \<Rightarrow> error + np_array" where
  "negE a = bindE a (\<lambda>x. Inr (arr_neg x))"

definition scaleE :: "real \<Rightarrow> error + np_array \<Rightarrow> error + np_array" where
  "scaleE c a = bindE a (\<lambda>x. Inr (arr_scale c x))"

text \<open>
  \<^verbatim>\<open>theta_lmr\<close> (lines 177--262). The two assertions come first. The branches for
  (-4, 4) and (-4, 5) read \<^verbatim>\<open>1/np.sqrt(2) (theta(...) + theta(...))\<close>: the juxtaposition
  is a call of the float \<^verbatim>\<open>np.sqrt(2)\<close>, made after its argument is evaluated, and raises
  TypeError. A pair that matches no branch leaves \<^verbatim>\<open>theta_lmr\<close> unbound at the
  \<^verbatim>\<open>return\<close>.
\<close>

definition theta_lmr :: "int \<Rightarrow> int \<Rightarrow> np_array \<Rightarrow> np_array \<Rightarrow> error + np_array" where
  "theta_lmr l mr cost phi =
     (let th = (\<lambda>func. theta func cost phi) in
      if l \<notin> set [0, 1, 2, 3, -1, -2, -3, -4, -5] then Inl AssertionError
      else if mr \<notin> set [1, 2, 3, 4, 5, 6, 7] then Inl AssertionError
      else if l = 0 then th ''s''
      else if l = 1 \<and> mr = 1 then th ''pz''
      else if l = 1 \<and> mr = 2 then th ''px''
      else if l = 1 \<and> mr = 3 then th ''py''
      else if l = 2 \<and> mr = 1 then th ''dz2''
      else if l = 2 \<and> mr = 2 then th ''dxz''
      else if l = 2 \<and> mr = 3 then th ''dyz''
      else if l = 2 \<and> mr = 4 then th ''dx2-y2''
      else if l = 2 \<and> mr = 5 then th ''pxy''
      else if l = 3 \<and> mr = 1 then th ''fz3''
      else if l = 3 \<and> mr = 2 then th ''fxz2''
      else if l = 3 \<and> mr = 3 then th ''fyz2''
      else if l = 3 \<and> mr = 4 then th ''fz(x2-y2)''
      else if l = 3 \<and> mr = 5 then th ''fxyz''
      else if l = 3 \<and> mr = 6 then th ''fx(x2-3y2)''
      else if l = 3 \<and> mr = 7 then th ''fy(3x2-y2)''
      else if l = -1 \<and> mr = 1 then
        scaleE (1 / sqrt 2) (addE (th ''s'') (th ''px''))
      else if l = -1 \<and> mr = 2 then
        scaleE (1 / sqrt 2) (subE (th ''s'') (th ''px''))
      else if l = -2 \<and> mr = 1 then
        addE (subE (scaleE (1 / sqrt 3) (th ''s'')) (scaleE (1 / sqrt 6) (th ''px'')))
             (scaleE (1 / sqrt 2) (th ''py''))
      else if l = -2 \<and> mr = 2 then
        subE (subE (scaleE (1 / sqrt 3) (th ''s'')) (scaleE (1 / sqrt 6) (th ''px'')))
             (scaleE (1 / sqrt 2) (th ''py''))
      else if l = -2 \<and> mr = 3 then
        addE (scaleE (1 / sqrt 3) (th ''s'')) (scaleE (2 / sqrt 6) (th ''px''))
      else if l = -3 \<and> mr = 1 then
        scaleE (1 / 2) (addE (addE (addE (th ''s'') (th ''px'')) (th ''py'')) (th ''pz''))
      else if l = -3 \<and> mr = 2 then
        scaleE (1 / 2) (subE (subE (addE (th ''s'') (th ''px'')) (th ''py'')) (th ''pz''))
      else if l = -3 \<and> mr = 3 then
        scaleE (1 / 2) (subE (addE (subE (th ''s'') (th ''px'')) (th ''py'')) (th ''pz''))
      else if l = -3 \<and> mr = 4 then
        scaleE (1 / 2) (addE (subE (subE (th ''s'') (th ''px'')) (th ''py'')) (th ''pz''))
      else if l = -4 \<and> mr = 1 then
        addE (subE (scaleE (1 / sqrt 3) (th ''s'')) (scaleE (1 / sqrt 6) (th ''px'')))
             (scaleE (1 / sqrt 2) (th ''py''))
      else if l = -4 \<and> mr = 2 then
        subE (subE (scaleE (1 / sqrt 3) (th ''s'')) (scaleE (1 / sqrt 6) (th ''px'')))
             (scaleE (1 / sqrt 2) (th ''py''))
      else if l = -4 \<and> mr = 3 then
        addE (scaleE (1 / sqrt 3) (th ''s'')) (scaleE (2 / sqrt 6) (th ''px''))
      else if l = -4 \<and> mr = 4 then
        bindE (addE (th ''pz'') (th ''dz2'')) (\<lambda>arg. Inl TypeError)
      else if l = -4 \<and> mr = 5 then
        bindE (addE (negE (th ''pz'')) (th ''dz2'')) (\<lambda>arg. Inl TypeError)
      else if l = -5 \<and> mr = 1 then
        addE (subE (subE (scaleE (1 / sqrt 6) (th ''s'')) (scaleE (1 / sqrt 2) (th ''px'')))
                   (scaleE (1 / sqrt 12) (th ''dz2'')))
             (scaleE (1 / 2) (th ''dx2-y2''))
      else if l = -5 \<and> mr = 2 then
        addE (subE (addE (scaleE (1 / sqrt 6) (th ''s'')) (scaleE (1 / sqrt 2) (th ''px'')))
                   (scaleE (1 / sqrt 12) (th ''dz2'')))
             (scaleE (1 / 2) (th ''dx2-y2''))
      else if l = -5 \<and> mr = 3 then
        subE (subE (subE (scaleE (1 / sqrt 6) (th ''s'')) (scaleE (1 / sqrt 2) (th ''py'')))
                   (scaleE (1 / sqrt 12) (th ''dz2'')))
             (scaleE (1 / 2) (th ''dx2-y2''))
      else if l = -5 \<and> mr = 4 then
        subE (subE (addE (scaleE (1 / sqrt 6) (th ''s'')) (scaleE (1 / sqrt 2) (th ''py'')))
                   (scaleE (1 / sqrt 12) (th ''dz2'')))
             (scaleE (1 / 2) (th ''dx2-y2''))
      else if l = -5 \<and> mr = 5 then
        addE (subE (scaleE (1 / sqrt 6) (th ''s'')) (scaleE (1 / sqrt 2) (th ''pz'')))
             (scaleE (1 / sqrt 3) (th ''dz2''))
      else if l = -5 \<and> mr = 6 then
        addE (addE (scaleE (1 / sqrt 6) (th ''s'')) (scaleE (1 / sqrt 2) (th ''pz'')))
             (scaleE (1 / sqrt 3) (th ''dz2''))
      else Inl UnboundLocalError)"

section \<open>pywannier90_vasp.py: the projection function on a grid\<close>

text \<open>
  Points and axes are arrays of three floats. \<^verbatim>\<open>v1.dot(v2)\<close>, \<^verbatim>\<open>np.linalg.norm\<close>,
  \<^verbatim>\<open>np.cross\<close>, a vector divided by a float, and the difference of two vectors.
\<close>

type_synonym vec3 = "np_float \<times> np_float \<times> np_float"

definition vdot :: "vec3 \<Rightarrow> vec3 \<Rightarrow> np_float" where
  "vdot a b =
     (case a of (a1, a2, a3) \<Rightarrow> case b of (b1, b2, b3) \<Rightarrow>
        fadd (fadd (fmul a1 b1) (fmul a2 b2)) (fmul a3 b3))"

definition vnorm :: "vec3 \<Rightarrow> np_float" where
  "vnorm a = fsqrt (vdot a a)"

definition vcross :: "vec3 \<Rightarrow> vec3 \<Rightarrow> vec3" where
  "vcross a b =
     (case a of (a1, a2, a3) \<Rightarrow> case b of (b1, b2, b3) \<Rightarrow>
        (fsub (fmul a2 b3) (fmul a3 b2),
         fsub (fmul a3 b1) (fmul a1 b3),
         fsub (fmul a1 b2) (fmul a2 b1)))"

definition vdiv :: "vec3 \<Rightarrow> np_float \<Rightarrow> vec3" where
  "vdiv a n = (case a of (a1, a2, a3) \<Rightarrow> (fdiv a1 n, fdiv a2 n, fdiv a3 n))"

definition vsub :: "vec3 \<Rightarrow> vec3 \<Rightarrow> vec3" where
  "vsub a b =
     (case a of (a1, a2, a3) \<Rightarrow> case b of (b1, b2, b3) \<Rightarrow> (fsub a1 b1, fsub a2 b2, fsub a3 b3))"

text \<open>\<^verbatim>\<open>angle\<close> (lines 42--50).\<close>

definition angle :: "vec3 \<Rightarrow> vec3 \<Rightarrow> np_float" where
  "angle v1 v2 = farccos (fdiv (fdiv (vdot v1 v2) (vnorm v1)) (vnorm v2))"

text \<open>
  \<^verbatim>\<open>transform\<close> (lines 52--69). The assertion compares floats exactly; a nan there
  fails it. \<^verbatim>\<open>tran_matrix[row,col]\<close> is the cosine of the angle between the unit vector
  \<open>row\<close> and the new axis \<open>col\<close>; the result is the transpose, given by its three rows.
\<close>

definition transform :: "vec3 \<Rightarrow> vec3 \<Rightarrow> error + vec3 \<times> vec3 \<times> vec3" where
  "transform x_vec z_vec =
     (let x = vdiv x_vec (vnorm x_vec);
          z = vdiv z_vec (vnorm z_vec)
      in
      if vdot x z \<noteq> Some 0 then Inl AssertionError
      else
        let y = vcross x z;
            e0 = (Some 1, Some 0, Some 0);
            e1 = (Some 0, Some 1, Some 0);
            e2 = (Some 0, Some 0, Some 1);
            tran = (\<lambda>orig new. fl1 cos (angle orig new))
        in Inr ((tran e0 x, tran e1 x, tran e2 x),
                (tran e0 y, tran e1 y, tran e2 y),
                (tran e0 z, tran e1 z, tran e2 z)))"

text \<open>\<^verbatim>\<open>np.einsum('iv,uv ->iu', r_vec, T)\<close> for one row of \<^verbatim>\<open>r_vec\<close>.\<close>

definition rotate :: "vec3 \<times> vec3 \<times> vec3 \<Rightarrow> vec3 \<Rightarrow> vec3" where
  "rotate T r = (case T of (t0, t1, t2) \<Rightarrow> (vdot r t0, vdot r t1, vdot r t2))"

text \<open>
  Lines 281--287 of \<^verbatim>\<open>g_r\<close>: the vectors from the site to the grid points in the new
  axes and their norms; if some norm is below 1e-8, both are computed once more with
  1e-5 subtracted from every coordinate. There is no second test.
\<close>

definition g_r_frame :: "vec3 list \<Rightarrow> vec3 \<Rightarrow> vec3 \<times> vec3 \<times> vec3 \<Rightarrow> vec3 list \<times> np_array" where
  "g_r_frame grids_coor site T =
     (let r_vec = map (\<lambda>g. rotate T (vsub g site)) grids_coor;
          r_norm = map vnorm r_vec
      in
      if list_ex (\<lambda>n. flt n (Some (1 / 10 ^ 8))) r_norm then
        let shift = (Some (1 / 10 ^ 5), Some (1 / 10 ^ 5), Some (1 / 10 ^ 5));
            r_vec' = map (\<lambda>g. rotate T (vsub (vsub g site) shift)) grids_coor
        in (r_vec', map vnorm r_vec')
      else (r_vec, r_norm))"

text \<open>Lines 292--297: the azimuth of one point.\<close>

definition phi_point :: "vec3 \<Rightarrow> np_float" where
  "phi_point r =
     (case r of (x, y, z) \<Rightarrow>
        if flt (Some (1 / 10 ^ 8)) x then fl1 arctan (fdiv y x)
        else if flt x (Some (- (1 / 10 ^ 8))) then fadd (fl1 arctan (fdiv y x)) (Some pi)
        else fmul (fmul (fl1 sgn y) (Some (1 / 2))) (Some pi))"

text \<open>
  \<^verbatim>\<open>g_r\<close> (lines 265--299). \<^verbatim>\<open>const.AUTOA\<close> is defined outside these sources and is a
  parameter. Line 288 divides by \<^verbatim>\<open>r_norm\<close>, whatever it holds.
\<close>

definition g_r ::
  "real \<Rightarrow> vec3 list \<Rightarrow> vec3 \<Rightarrow> int \<Rightarrow> int \<Rightarrow> int \<Rightarrow> np_float \<Rightarrow> vec3 \<Rightarrow> vec3 \<Rightarrow> string
     \<Rightarrow> error + np_array" where
  "g_r AUTOA grids_coor site l mr r zona x_axis z_axis unit =
     (let unit_conv = (if unit = ''A'' then AUTOA else 1) in
      bindE (transform x_axis z_axis) (\<lambda>T.
      let frame = g_r_frame grids_coor site T;
          r_vec = fst frame;
          r_norm = snd frame;
          cost = map2 (\<lambda>v n. fdiv (snd (snd v)) n) r_vec r_norm;
          phi = map phi_point r_vec
      in
      bindE (theta_lmr l mr cost phi) (\<lambda>angular.
      Inr (arr_mul angular (R_r (map (\<lambda>n. fdiv n (Some unit_conv)) r_norm) r zona)))))"

section \<open>pywannier90_vasp.py: the .amn file\<close>









section \<open>Notions used to state the properties\<close>

text \<open>
  The first position of the largest (smallest) entry of an array: what "the index of the
  k-point maximizing (minimizing)" an energy denotes when several k-points tie.
\<close>

definition first_argmax :: "real list \<Rightarrow> nat \<Rightarrow> bool" where
  "first_argmax xs i \<longleftrightarrow>
     i < length xs \<and> (\<forall>j<length xs. xs ! j \<le> xs ! i) \<and> (\<forall>j<i. xs ! j < xs ! i)"

definition first_argmin :: "real list \<Rightarrow> nat \<Rightarrow> bool" where
  "first_argmin xs i \<longleftrightarrow>
     i < length xs \<and> (\<forall>j<length xs. xs ! i \<le> xs ! j) \<and> (\<forall>j<i. xs ! i < xs ! j)"

text \<open>
  The homo index as the band-gap property words it: the number of bands of one k-point
  whose occupation exceeds 0.5, minus 1. The argument is one row
  \<^verbatim>\<open>vasprun.band[spin,kpt]\<close> of (energy, occupation) pairs.
\<close>

definition occupied_homo_idx :: "(real \<times> real) list \<Rightarrow> int" where
  "occupied_homo_idx row = int (length (filter (\<lambda>eo. snd eo > 0.5) row)) - 1"

text \<open>
  The rows of one run that survive the cut \<^verbatim>\<open>[nonzero:]\<close>: everything from index
  \<^verbatim>\<open>count_nonzero(weights)\<close> onward.
\<close>

definition kept_rows :: "vasprun \<Rightarrow> 'a list \<Rightarrow> 'a list" where
  "kept_rows v rows = drop (count_nonzero_weights (weights v)) rows"

text \<open>
  The plane \<^verbatim>\<open>run.band[spin]\<close> for a Python int \<^verbatim>\<open>spin\<close> that is in range.
\<close>

definition spin_plane :: "vasprun \<Rightarrow> int \<Rightarrow> (real \<times> real) list list" where
  "spin_plane v spin = band v ! nat (if spin < 0 then int (length (band v)) + spin else spin)"

text \<open>
  A call returns an array of \<open>n\<close> entries, raising nothing.
\<close>

definition returns_array :: "nat \<Rightarrow> error + np_array \<Rightarrow> bool" where
  "returns_array n a \<longleftrightarrow> (\<exists>v. a = Inr v \<and> length v = n)"






section \<open>Example inputs\<close>

text \<open>
  A run with one spin channel, two k-points of weight zero and three bands; the valence
  band tops at the first k-point, the conduction band bottoms at the second.
\<close>

definition example_run :: vasprun where
  "example_run =
     \<lparr>band = [[[(-1, 1), (1/2, 1), (2, 0)], [(-6/5, 1), (1/4, 1), (3/2, 0)]]],
      kpointlist = [(0, 0, 0), (1, 0, 0)],
      weights = [0, 0],
      ISPIN = 1,
      NBANDS = 3,
      cell_final_1 = ((1, 0, 0), (0, 1, 0), (0, 0, 1))\<rparr>"

text \<open>A hybrid-functional run: one weighted k-point, dropped, before the two path k-points.\<close>

definition example_hybrid_run :: vasprun where
  "example_hybrid_run =
     \<lparr>band = [[[(-3, 1), (0, 1), (4, 0)], [(-1, 1), (1/2, 1), (2, 0)], [(-6/5, 1), (1/4, 1), (3/2, 0)]]],
      kpointlist = [(1/2, 1/2, 1/2), (0, 0, 0), (1, 0, 0)],
      weights = [1, 0, 0],
      ISPIN = 1,
      NBANDS = 3,
      cell_final_1 = ((1, 0, 0), (0, 1, 0), (0, 0, 1))\<rparr>"

text \<open>
  A grid that holds the site itself and the point 1e-5 further along every coordinate,
  with the default axes of \<^verbatim>\<open>g_r\<close>.
\<close>

definition origin_site :: vec3 where
  "origin_site = (Some 0, Some 0, Some 0)"

definition coincident_grid :: "vec3 list" where
  "coincident_grid = [(Some 0, Some 0, Some 0), (Some (1 / 10 ^ 5), Some (1 / 10 ^ 5), Some (1 / 10 ^ 5))]"

definition default_x_axis :: vec3 where
  "default_x_axis = (Some 1, Some 0, Some 0)"

definition default_z_axis :: vec3 where
  "default_z_axis = (Some 0, Some 0, Some 1)"

definition default_axes :: "vec3 \<times> vec3 \<times> vec3" where
  "default_axes = ((Some 1, Some 0, Some 0), (Some 0, Some (-1), Some 0), (Some 0, Some 0, Some 1))"

section \<open>Sequencing, indexing and the arg-scans\<close>

lemma bindE_Inl [simp]: "bindE (Inl e) f = Inl e"
  by (simp add: bindE_def)

lemma bindE_Inr [simp]: "bindE (Inr x) f = f x"
  by (simp add: bindE_def)

lemma bindE_eq_Inr: "bindE m f = Inr y \<longleftrightarrow> (\<exists>x. m = Inr x \<and> f x = Inr y)"
  by (cases m) simp_all

lemma mapE_eq_Inr:
  "mapE f xs = Inr ys \<longleftrightarrow> length ys = length xs \<and> (\<forall>i<length xs. f (xs ! i) = Inr (ys ! i))"
proof (induction xs arbitrary: ys)
  case Nil
  then show ?case by auto
next
  case (Cons x xs)
  show ?case
  proof (cases ys)
    case Nil
    then show ?thesis by (auto simp: bindE_eq_Inr)
  next
    case (Cons y ys')
    then show ?thesis
      using Cons.IH [of ys'] by (auto simp: bindE_eq_Inr nth_Cons split: nat.splits)
  qed
qed

lemma py_index_nat_Inr: "py_index xs (int i) = Inr x \<longleftrightarrow> i < length xs \<and> x = xs ! i"
  by (auto simp: py_index_def)

lemma np_index2_nat_Inr:
  "np_index2 a (int i) (int j) = Inr x \<longleftrightarrow> i < length a \<and> j < length (a ! i) \<and> x = a ! i ! j"
  by (auto simp: np_index2_def bindE_eq_Inr py_index_nat_Inr)

lemma argmax_scan_first:
  "best < length pre \<Longrightarrow> pre ! best = bv \<Longrightarrow> first_argmax pre best \<Longrightarrow> i = length pre
   \<Longrightarrow> first_argmax (pre @ xs) (argmax_scan best bv i xs)"
proof (induction xs arbitrary: best bv i pre)
  case Nil
  then show ?case by simp
next
  case (Cons x xs)
  show ?case
  proof (cases "bv < x")
    case True
    have "first_argmax (pre @ [x]) i"
      using Cons.prems True unfolding first_argmax_def
      by (auto simp: nth_append less_Suc_eq intro: order_trans less_imp_le le_less_trans)
    then have "first_argmax ((pre @ [x]) @ xs) (argmax_scan i x (Suc i) xs)"
      using Cons.prems by (intro Cons.IH) (auto simp: nth_append)
    then show ?thesis using True by simp
  next
    case False
    have "first_argmax (pre @ [x]) best"
      using Cons.prems False unfolding first_argmax_def
      by (auto simp: nth_append less_Suc_eq)
    then have "first_argmax ((pre @ [x]) @ xs) (argmax_scan best bv (Suc i) xs)"
      using Cons.prems by (intro Cons.IH) (auto simp: nth_append)
    then show ?thesis using False by simp
  qed
qed

lemma np_argmax_first: "np_argmax xs = Inr i \<Longrightarrow> first_argmax xs i"
proof (cases xs)
  case Nil
  assume "np_argmax xs = Inr i"
  then show ?thesis using Nil by (simp add: np_argmax_def)
next
  case (Cons x rest)
  assume "np_argmax xs = Inr i"
  then have i: "i = argmax_scan 0 x 1 rest" using Cons by (simp add: np_argmax_def)
  have "first_argmax ([x] @ rest) (argmax_scan 0 x 1 rest)"
    by (rule argmax_scan_first) (simp_all add: first_argmax_def)
  then show ?thesis using i Cons by simp
qed

lemma argmin_scan_first:
  "best < length pre \<Longrightarrow> pre ! best = bv \<Longrightarrow> first_argmin pre best \<Longrightarrow> i = length pre
   \<Longrightarrow> first_argmin (pre @ xs) (argmin_scan best bv i xs)"
proof (induction xs arbitrary: best bv i pre)
  case Nil
  then show ?case by simp
next
  case (Cons x xs)
  show ?case
  proof (cases "x < bv")
    case True
    have "first_argmin (pre @ [x]) i"
      using Cons.prems True unfolding first_argmin_def
      by (auto simp: nth_append less_Suc_eq intro: order_trans less_imp_le less_le_trans)
    then have "first_argmin ((pre @ [x]) @ xs) (argmin_scan i x (Suc i) xs)"
      using Cons.prems by (intro Cons.IH) (auto simp: nth_append)
    then show ?thesis using True by simp
  next
    case False
    have "first_argmin (pre @ [x]) best"
      using Cons.prems False unfolding first_argmin_def
      by (auto simp: nth_append less_Suc_eq)
    then have "first_argmin ((pre @ [x]) @ xs) (argmin_scan best bv (Suc i) xs)"
      using Cons.prems by (intro Cons.IH) (auto simp: nth_append)
    then show ?thesis using False by simp
  qed
qed

lemma np_argmin_first: "np_argmin xs = Inr i \<Longrightarrow> first_argmin xs i"
proof (cases xs)
  case Nil
  assume "np_argmin xs = Inr i"
  then show ?thesis using Nil by (simp add: np_argmin_def)
next
  case (Cons x rest)
  assume "np_argmin xs = Inr i"
  then have i: "i = argmin_scan 0 x 1 rest" using Cons by (simp add: np_argmin_def)
  have "first_argmin ([x] @ rest) (argmin_scan 0 x 1 rest)"
    by (rule argmin_scan_first) (simp_all add: first_argmin_def)
  then show ?thesis using i Cons by simp
qed

lemma first_argmax_Max: "first_argmax xs i \<Longrightarrow> xs ! i = Max (set xs)"
  unfolding first_argmax_def
  by (intro Max_eqI [symmetric]) (auto simp: in_set_conv_nth)

lemma first_argmin_Min: "first_argmin xs i \<Longrightarrow> xs ! i = Min (set xs)"
  unfolding first_argmin_def
  by (intro Min_eqI [symmetric]) (auto simp: in_set_conv_nth)

lemma set_map_nth_image: "set (map f xs) = (\<lambda>k. f (xs ! k)) ` {..<length xs}"
  by (force simp: in_set_conv_nth image_iff)

section \<open>The band gap: VBM, CBM and the direct flag\<close>

lemma bandgap_spin_Inr:
  assumes "bandgap_spin band_arr co_occ co_occ_b kpts nkpts spin = Inr g"
  shows "\<exists>edges.
           mapE (bandedge_kpt band_arr co_occ co_occ_b spin) [0..<nkpts] = Inr edges
         \<and> np_argmax (map homo_energy edges) = Inr (vbm_idx g)
         \<and> np_argmin (map lumo_energy edges) = Inr (cbm_idx g)
         \<and> (direct g \<longleftrightarrow> vbm_idx g = cbm_idx g)
         \<and> bandgap g = lumo_energy (edges ! cbm_idx g) - homo_energy (edges ! vbm_idx g)"
  using assms unfolding bandgap_spin_def
  by (auto simp: bindE_eq_Inr Let_def py_index_nat_Inr)

lemma bandgap_loop_Inr:
  assumes "bandgap_loop band_arr co_occ co_occ_b kpts ispin nkpts = Inr gs"
  shows "length gs = ispin"
    and "spin < ispin \<Longrightarrow> bandgap_spin band_arr co_occ co_occ_b kpts nkpts spin = Inr (gs ! spin)"
  using assms unfolding bandgap_loop_def by (auto simp: mapE_eq_Inr)

lemma get_bandgap_single_loop:
  assumes "get_bandgap_single v efermi = Inr gs"
  shows "bandgap_loop (band_energy (band v)) (band_occ (band v))
           (map (map (map occupied)) (band_occ (band v))) (kpointlist v) (ISPIN v)
           (length (kpointlist v)) = Inr gs"
  using assms by (cases efermi) (simp_all add: get_bandgap_single_def Let_def)

lemma get_bandgap_loop:
  assumes "get_bandgap self_vasprun efermi = Inr st"
  shows "\<exists>ispin. bandgap_loop (self_band st) (self_co_occ st) (self_co_occ_b st) (self_kpts st)
           ispin (length (self_kpts st)) = Inr (self_gaps st)"
proof (cases self_vasprun)
  case (One v)
  with assms obtain gs where gs: "get_bandgap_single v efermi = Inr gs"
    and st: "st = \<lparr>self_kpts = kpointlist v, self_band = band_energy (band v),
          self_co_occ = band_occ (band v),
          self_co_occ_b = map (map (map occupied)) (band_occ (band v)),
          self_gaps = gs\<rparr>"
    by (auto simp: get_bandgap_def get_bandgap_one_def bindE_eq_Inr)
  from get_bandgap_single_loop [OF gs] st show ?thesis by auto
next
  case (Many runs)
  with assms have m: "get_bandgap_multi runs efermi = Inr st"
    by (simp add: get_bandgap_def)
  then obtain efs where "efermi = FermiList efs"
    by (cases efermi) (simp_all add: get_bandgap_multi_def)
  with m show ?thesis
    unfolding get_bandgap_multi_def
    by (auto simp: bindE_eq_Inr Let_def split: if_splits)
qed

text \<open>
  C1. For every spin channel \<^verbatim>\<open>get_bandgap\<close> processes, with \<open>edges\<close> the per-k-point
  band edges it computed from the arrays it left on the object: \<^verbatim>\<open>vbm_idx\<close> is the
  (first) k-point of largest homo energy, \<^verbatim>\<open>cbm_idx\<close> the (first) k-point of smallest
  lumo energy, and the gap is flagged direct exactly when the two indices are equal.
\<close>

theorem get_bandgap_direct_iff_same_kpoint:
  assumes "get_bandgap self_vasprun efermi = Inr st"
      and "spin < length (self_gaps st)"
  shows "\<exists>edges. length edges = length (self_kpts st)
           \<and> (\<forall>k<length (self_kpts st).
                 bandedge_kpt (self_band st) (self_co_occ st) (self_co_occ_b st) spin k
                   = Inr (edges ! k))
           \<and> first_argmax (map homo_energy edges) (vbm_idx (self_gaps st ! spin))
           \<and> first_argmin (map lumo_energy edges) (cbm_idx (self_gaps st ! spin))
           \<and> (direct (self_gaps st ! spin)
                \<longleftrightarrow> vbm_idx (self_gaps st ! spin) = cbm_idx (self_gaps st ! spin))"
proof -
  let ?n = "length (self_kpts st)" and ?g = "self_gaps st ! spin"
  from get_bandgap_loop [OF assms(1)] obtain ispin where
    loop: "bandgap_loop (self_band st) (self_co_occ st) (self_co_occ_b st) (self_kpts st)
             ispin ?n = Inr (self_gaps st)"
    by blast
  from bandgap_loop_Inr(1) [OF loop] assms(2) have "spin < ispin" by simp
  from bandgap_loop_Inr(2) [OF loop this]
  have "bandgap_spin (self_band st) (self_co_occ st) (self_co_occ_b st) (self_kpts st) ?n spin
          = Inr ?g" .
  from bandgap_spin_Inr [OF this] obtain edges where
    e: "mapE (bandedge_kpt (self_band st) (self_co_occ st) (self_co_occ_b st) spin) [0..<?n]
          = Inr edges"
    and v: "np_argmax (map homo_energy edges) = Inr (vbm_idx ?g)"
    and c: "np_argmin (map lumo_energy edges) = Inr (cbm_idx ?g)"
    and d: "direct ?g \<longleftrightarrow> vbm_idx ?g = cbm_idx ?g"
    by blast
  from e have "length edges = ?n"
    and "\<forall>k<?n. bandedge_kpt (self_band st) (self_co_occ st) (self_co_occ_b st) spin k
                  = Inr (edges ! k)"
    by (auto simp: mapE_eq_Inr)
  with np_argmax_first [OF v] np_argmin_first [OF c] d show ?thesis by blast
qed

lemma example_run_bandgap:
  "get_bandgap (One example_run) (FermiFloat 0) =
     Inr \<lparr>self_kpts = [(0, 0, 0), (1, 0, 0)],
          self_band = [[[-1, 1/2, 2], [-6/5, 1/4, 3/2]]],
          self_co_occ = [[[1, 1, 0], [1, 1, 0]]],
          self_co_occ_b = [[[True, True, False], [True, True, False]]],
          self_gaps =
            [\<lparr>vbm_idx = 0, cbm_idx = 1, direct = False,
              vbm_edge = \<lparr>homo_energy = 1/2, homo_occ = 1, lumo_energy = 2, lumo_occ = 0\<rparr>,
              cbm_edge = \<lparr>homo_energy = 1/4, homo_occ = 1, lumo_energy = 3/2, lumo_occ = 0\<rparr>,
              vbm_kpt = (0, 0, 0), cbm_kpt = (1, 0, 0), bandgap = 1,
              direct_gap = Some (5/4)\<rparr>]\<rparr>"
  by code_simp

theorem get_bandgap_direct_iff_same_kpoint_witness:
  "\<exists>st. get_bandgap (One example_run) (FermiFloat 0) = Inr st
      \<and> 0 < length (self_gaps st)
      \<and> \<not> direct (self_gaps st ! 0)
      \<and> vbm_idx (self_gaps st ! 0) = 0 \<and> cbm_idx (self_gaps st ! 0) = 1
      \<and> (\<exists>edges. length edges = length (self_kpts st)
           \<and> (\<forall>k<length (self_kpts st).
                 bandedge_kpt (self_band st) (self_co_occ st) (self_co_occ_b st) 0 k
                   = Inr (edges ! k))
           \<and> first_argmax (map homo_energy edges) (vbm_idx (self_gaps st ! 0))
           \<and> first_argmin (map lumo_energy edges) (cbm_idx (self_gaps st ! 0))
           \<and> (direct (self_gaps st ! 0)
                \<longleftrightarrow> vbm_idx (self_gaps st ! 0) = cbm_idx (self_gaps st ! 0)))"
proof -
  note run = example_run_bandgap
  have len: "0 < length (self_gaps (projr (get_bandgap (One example_run) (FermiFloat 0))))"
    by (simp add: run)
  have "get_bandgap (One example_run) (FermiFloat 0)
          = Inr (projr (get_bandgap (One example_run) (FermiFloat 0)))"
    by (simp add: run)
  from get_bandgap_direct_iff_same_kpoint [OF this len] show ?thesis
    by (simp add: run)
qed

section \<open>The band gap of a single run\<close>

lemma count_nonzero_threshold:
  "count_nonzero (map occupied (map snd row)) = length (filter (\<lambda>eo. snd eo > 0.5) row)"
  by (simp add: count_nonzero_def filter_map comp_def occupied_def)

lemma bandedge_kpt_single:
  assumes "bandedge_kpt (band_energy b) (band_occ b)
             (map (map (map occupied)) (band_occ b)) spin k = Inr e"
  shows "py_index (map fst (b ! spin ! k)) (occupied_homo_idx (b ! spin ! k)) = Inr (homo_energy e)"
    and "py_index (map fst (b ! spin ! k)) (occupied_homo_idx (b ! spin ! k) + 1) = Inr (lumo_energy e)"
proof -
  from assms obtain band_kpt occ he le where
    bk: "np_index2 (band_energy b) (int spin) (int k) = Inr band_kpt"
    and oc: "np_index2 (map (map (map occupied)) (band_occ b)) (int spin) (int k) = Inr occ"
    and he: "py_index band_kpt (int (count_nonzero occ) - 1) = Inr he"
    and le: "py_index band_kpt (int (count_nonzero occ) - 1 + 1) = Inr le"
    and e: "homo_energy e = he" "lumo_energy e = le"
    unfolding bandedge_kpt_def Let_def bindE_eq_Inr sum.inject
    by (elim exE conjE) (simp only: add_diff_cancel, fastforce)
  from bk have 1: "spin < length b" "k < length (b ! spin)" "band_kpt = map fst (b ! spin ! k)"
    by (auto simp: np_index2_nat_Inr band_energy_def)
  from oc 1 have 2: "occ = map occupied (map snd (b ! spin ! k))"
    by (auto simp: np_index2_nat_Inr band_occ_def)
  have 3: "int (count_nonzero occ) - 1 = occupied_homo_idx (b ! spin ! k)"
    unfolding 2 count_nonzero_threshold occupied_homo_idx_def ..
  show "py_index (map fst (b ! spin ! k)) (occupied_homo_idx (b ! spin ! k)) = Inr (homo_energy e)"
    using he 1 3 e by simp
  show "py_index (map fst (b ! spin ! k)) (occupied_homo_idx (b ! spin ! k) + 1) = Inr (lumo_energy e)"
    using le 1 3 e by simp
qed

text \<open>
  C2. One vasprun.xml and a float Fermi level. For each spin channel processed and each
  k-point, the homo energy \<open>H k\<close> is read at the index "number of bands with occupation
  above 0.5, minus 1" and the lumo energy \<open>L k\<close> at that index plus 1 (indices in
  Python's sense, both reads in range); the value appended to \<^verbatim>\<open>self.bandgap\<close> is the
  least lumo energy minus the greatest homo energy over the k-points. One entry is
  appended per spin channel.
\<close>

theorem get_bandgap_single_gap:
  assumes "get_bandgap_single v (FermiFloat ef) = Inr gs" and "spin < length gs"
  shows "length gs = ISPIN v \<and> 0 < length (kpointlist v) \<and>
         (\<exists>H L. (\<forall>k<length (kpointlist v).
                    py_index (map fst (band v ! spin ! k)) (occupied_homo_idx (band v ! spin ! k))
                      = Inr (H k)
                  \<and> py_index (map fst (band v ! spin ! k)) (occupied_homo_idx (band v ! spin ! k) + 1)
                      = Inr (L k))
                \<and> bandgap (gs ! spin)
                    = Min (L ` {..<length (kpointlist v)}) - Max (H ` {..<length (kpointlist v)}))"
proof -
  let ?b = "band v" and ?n = "length (kpointlist v)"
  let ?ob = "map (map (map occupied)) (band_occ ?b)"
  note loop = get_bandgap_single_loop [OF assms(1)]
  from bandgap_loop_Inr(1) [OF loop] have len: "length gs = ISPIN v" .
  with assms(2) have "spin < ISPIN v" by simp
  from bandgap_loop_Inr(2) [OF loop this] have
    "bandgap_spin (band_energy ?b) (band_occ ?b) ?ob (kpointlist v) ?n spin = Inr (gs ! spin)" .
  from bandgap_spin_Inr [OF this] obtain edges where
    e: "mapE (bandedge_kpt (band_energy ?b) (band_occ ?b) ?ob spin) [0..<?n] = Inr edges"
    and vi: "np_argmax (map homo_energy edges) = Inr (vbm_idx (gs ! spin))"
    and ci: "np_argmin (map lumo_energy edges) = Inr (cbm_idx (gs ! spin))"
    and gap: "bandgap (gs ! spin) = lumo_energy (edges ! cbm_idx (gs ! spin))
                                     - homo_energy (edges ! vbm_idx (gs ! spin))"
    by blast
  from e have el: "length edges = ?n"
    and ek: "\<And>k. k < ?n \<Longrightarrow> bandedge_kpt (band_energy ?b) (band_occ ?b) ?ob spin k = Inr (edges ! k)"
    by (auto simp: mapE_eq_Inr)
  have fv: "first_argmax (map homo_energy edges) (vbm_idx (gs ! spin))"
    by (rule np_argmax_first [OF vi])
  have fc: "first_argmin (map lumo_energy edges) (cbm_idx (gs ! spin))"
    by (rule np_argmin_first [OF ci])
  from fv have pos: "0 < ?n" using el by (auto simp: first_argmax_def)
  have hset: "set (map homo_energy edges) = (\<lambda>k. homo_energy (edges ! k)) ` {..<?n}"
    unfolding el [symmetric] by (rule set_map_nth_image)
  have lset: "set (map lumo_energy edges) = (\<lambda>k. lumo_energy (edges ! k)) ` {..<?n}"
    unfolding el [symmetric] by (rule set_map_nth_image)
  have "vbm_idx (gs ! spin) < length edges" using fv by (simp add: first_argmax_def)
  then have "homo_energy (edges ! vbm_idx (gs ! spin))
               = map homo_energy edges ! vbm_idx (gs ! spin)" by simp
  also have "\<dots> = Max (set (map homo_energy edges))" by (rule first_argmax_Max [OF fv])
  finally have hmax: "homo_energy (edges ! vbm_idx (gs ! spin))
                = Max ((\<lambda>k. homo_energy (edges ! k)) ` {..<?n})"
    by (simp only: hset)
  have "cbm_idx (gs ! spin) < length edges" using fc by (simp add: first_argmin_def)
  then have "lumo_energy (edges ! cbm_idx (gs ! spin))
               = map lumo_energy edges ! cbm_idx (gs ! spin)" by simp
  also have "\<dots> = Min (set (map lumo_energy edges))" by (rule first_argmin_Min [OF fc])
  finally have lmin: "lumo_energy (edges ! cbm_idx (gs ! spin))
                = Min ((\<lambda>k. lumo_energy (edges ! k)) ` {..<?n})"
    by (simp only: lset)
  have "\<forall>k<?n. py_index (map fst (?b ! spin ! k)) (occupied_homo_idx (?b ! spin ! k))
                   = Inr (homo_energy (edges ! k))
              \<and> py_index (map fst (?b ! spin ! k)) (occupied_homo_idx (?b ! spin ! k) + 1)
                   = Inr (lumo_energy (edges ! k))"
    using bandedge_kpt_single [OF ek] by blast
  with gap hmax lmin have
    "\<exists>H L. (\<forall>k<?n. py_index (map fst (?b ! spin ! k)) (occupied_homo_idx (?b ! spin ! k)) = Inr (H k)
                  \<and> py_index (map fst (?b ! spin ! k)) (occupied_homo_idx (?b ! spin ! k) + 1) = Inr (L k))
           \<and> bandgap (gs ! spin) = Min (L ` {..<?n}) - Max (H ` {..<?n})"
    by (intro exI [of _ "\<lambda>k. homo_energy (edges ! k)"] exI [of _ "\<lambda>k. lumo_energy (edges ! k)"]) simp
  with len pos show ?thesis by blast
qed

lemma example_run_single:
  "get_bandgap_single example_run (FermiFloat 0) =
     Inr [\<lparr>vbm_idx = 0, cbm_idx = 1, direct = False,
           vbm_edge = \<lparr>homo_energy = 1/2, homo_occ = 1, lumo_energy = 2, lumo_occ = 0\<rparr>,
           cbm_edge = \<lparr>homo_energy = 1/4, homo_occ = 1, lumo_energy = 3/2, lumo_occ = 0\<rparr>,
           vbm_kpt = (0, 0, 0), cbm_kpt = (1, 0, 0), bandgap = 1,
           direct_gap = Some (5/4)\<rparr>]"
  by code_simp

theorem get_bandgap_single_gap_witness:
  "\<exists>gs. get_bandgap_single example_run (FermiFloat 0) = Inr gs \<and> 0 < length gs
      \<and> bandgap (gs ! 0) = 1
      \<and> length gs = ISPIN example_run \<and> 0 < length (kpointlist example_run)
      \<and> (\<exists>H L. (\<forall>k<length (kpointlist example_run).
                    py_index (map fst (band example_run ! 0 ! k))
                      (occupied_homo_idx (band example_run ! 0 ! k)) = Inr (H k)
                  \<and> py_index (map fst (band example_run ! 0 ! k))
                      (occupied_homo_idx (band example_run ! 0 ! k) + 1) = Inr (L k))
                \<and> bandgap (gs ! 0)
                    = Min (L ` {..<length (kpointlist example_run)})
                      - Max (H ` {..<length (kpointlist example_run)}))"
proof -
  note run = example_run_single
  have len: "0 < length (projr (get_bandgap_single example_run (FermiFloat 0)))"
    by (simp add: run)
  have "get_bandgap_single example_run (FermiFloat 0)
          = Inr (projr (get_bandgap_single example_run (FermiFloat 0)))"
    by (simp add: run)
  from get_bandgap_single_gap [OF this len] show ?thesis
    by (simp add: run)
qed

text \<open>
  The single-run path does return when the arrays have the shape the loops expect and
  every k-point has an unoccupied band above its occupied ones.
\<close>

lemma mapE_total:
  assumes "\<And>x. x \<in> set xs \<Longrightarrow> \<exists>y. f x = Inr y"
  shows "\<exists>ys. mapE f xs = Inr ys"
  using assms
proof (induction xs)
  case Nil
  then show ?case by simp
next
  case (Cons x xs)
  from Cons.prems [of x] obtain y where "f x = Inr y" by auto
  moreover from Cons.IH Cons.prems obtain ys where "mapE f xs = Inr ys" by auto
  ultimately show ?case by simp
qed

lemma np_argmax_total: "xs \<noteq> [] \<Longrightarrow> \<exists>i. np_argmax xs = Inr i"
  by (cases xs) (simp_all add: np_argmax_def)

lemma np_argmin_total: "xs \<noteq> [] \<Longrightarrow> \<exists>i. np_argmin xs = Inr i"
  by (cases xs) (simp_all add: np_argmin_def)

lemma bandedge_kpt_total:
  assumes "spin < length b" and "k < length (b ! spin)"
      and "length (filter (\<lambda>eo. snd eo > 0.5) (b ! spin ! k)) < length (b ! spin ! k)"
  shows "\<exists>e. bandedge_kpt (band_energy b) (band_occ b)
               (map (map (map occupied)) (band_occ b)) spin k = Inr e"
proof -
  let ?row = "b ! spin ! k"
  let ?c = "length (filter (\<lambda>eo. snd eo > 0.5) ?row)"
  have bk: "np_index2 (band_energy b) (int spin) (int k) = Inr (map fst ?row)"
    using assms by (simp add: np_index2_nat_Inr band_energy_def)
  have oc: "np_index2 (map (map (map occupied)) (band_occ b)) (int spin) (int k)
              = Inr (map occupied (map snd ?row))"
    using assms by (simp add: np_index2_nat_Inr band_occ_def)
  have h: "\<exists>x. py_index xs (int ?c - 1) = Inr x" if "length xs = length ?row" for xs :: "real list"
    using that assms(3) by (auto simp: py_index_def)
  have l: "\<exists>x. py_index xs (int ?c - 1 + 1) = Inr x" if "length xs = length ?row" for xs :: "real list"
    using that assms(3) by (auto simp: py_index_def)
  have co: "np_index3 (band_occ b) (int spin) (int k) i = py_index (map snd ?row) i" for i
    using assms by (simp add: np_index3_def np_index2_def py_index_def band_occ_def)
  from h [of "map fst ?row"] obtain he where he: "py_index (map fst ?row) (int ?c - 1) = Inr he"
    by auto
  from h [of "map snd ?row"] obtain ho where ho: "py_index (map snd ?row) (int ?c - 1) = Inr ho"
    by auto
  from l [of "map fst ?row"] obtain le where le: "py_index (map fst ?row) (int ?c - 1 + 1) = Inr le"
    by auto
  from l [of "map snd ?row"] obtain lo where lo: "py_index (map snd ?row) (int ?c - 1 + 1) = Inr lo"
    by auto
  show ?thesis
    unfolding bandedge_kpt_def Let_def
    by (simp only: bk oc bindE_Inr count_nonzero_threshold co he ho le lo) blast
qed

lemma get_bandgap_single_returns:
  assumes "ISPIN v \<le> length (band v)" and "0 < length (kpointlist v)"
      and "\<And>s k. s < ISPIN v \<Longrightarrow> k < length (kpointlist v) \<Longrightarrow>
             k < length (band v ! s)
             \<and> length (filter (\<lambda>eo. snd eo > 0.5) (band v ! s ! k)) < length (band v ! s ! k)"
  shows "\<exists>gs. get_bandgap_single v (FermiFloat ef) = Inr gs"
proof -
  let ?b = "band v" and ?n = "length (kpointlist v)"
  let ?ob = "map (map (map occupied)) (band_occ ?b)"
  have "\<exists>g. bandgap_spin (band_energy ?b) (band_occ ?b) ?ob (kpointlist v) ?n s = Inr g"
    if s: "s < ISPIN v" for s
  proof -
    have "\<exists>edges. mapE (bandedge_kpt (band_energy ?b) (band_occ ?b) ?ob s) [0..<?n] = Inr edges"
      using assms s by (intro mapE_total bandedge_kpt_total) auto
    then obtain edges where
      e: "mapE (bandedge_kpt (band_energy ?b) (band_occ ?b) ?ob s) [0..<?n] = Inr edges" ..
    then have el: "length edges = ?n" by (simp add: mapE_eq_Inr)
    with assms(2) have ne: "map homo_energy edges \<noteq> []" "map lumo_energy edges \<noteq> []" by auto
    from np_argmax_total [OF ne(1)] obtain vi where vi: "np_argmax (map homo_energy edges) = Inr vi" ..
    from np_argmin_total [OF ne(2)] obtain ci where ci: "np_argmin (map lumo_energy edges) = Inr ci" ..
    from np_argmax_first [OF vi] el have v: "vi < ?n" by (simp add: first_argmax_def)
    from np_argmin_first [OF ci] el have c: "ci < ?n" by (simp add: first_argmin_def)
    show ?thesis
      unfolding bandgap_spin_def
      by (simp add: e vi ci Let_def py_index_def v c el del: mapE.simps)
  qed
  then have "\<exists>gs. bandgap_loop (band_energy ?b) (band_occ ?b) ?ob (kpointlist v) (ISPIN v) ?n = Inr gs"
    unfolding bandgap_loop_def by (intro mapE_total) auto
  then show ?thesis by (simp add: get_bandgap_single_def Let_def)
qed

section \<open>Several runs: which k-points reach the combined arrays\<close>

lemma np_vstack_Inr: "np_vstack n a w b = Inr c \<Longrightarrow> c = a @ b"
  by (auto simp: np_vstack_def split: if_splits)

lemma np_vstack_width: "w \<noteq> n \<Longrightarrow> np_vstack n a w b = Inl ValueError"
  by (simp add: np_vstack_def)

lemma py_index_Inr_plane:
  "py_index xs i = Inr x \<Longrightarrow> x = xs ! nat (if i < 0 then int (length xs) + i else i)"
  by (auto simp: py_index_def split: if_splits)

lemma stack_run_Inr:
  assumes "stack_run nbands spin acc run = Inr acc'"
  shows "st_bands acc' = st_bands acc @ kept_rows (fst run) (map (map fst) (band (fst run) ! spin))"
    and "st_kptss acc' = st_kptss acc @ kept_rows (fst run) (kpointlist (fst run))"
proof -
  from assms obtain plane bands where
    p: "py_index (band (fst run)) (int spin) = Inr plane"
    and b: "np_vstack nbands (st_bands acc) (row_width (NBANDS (fst run)) plane)
              (drop (count_nonzero_weights (weights (fst run))) (map (map fst) plane)) = Inr bands"
    and a: "st_bands acc' = bands"
           "st_kptss acc' = st_kptss acc
              @ drop (count_nonzero_weights (weights (fst run))) (kpointlist (fst run))"
    unfolding stack_run_def Let_def bindE_eq_Inr by auto
  from p have "plane = band (fst run) ! spin" by (simp add: py_index_nat_Inr)
  with np_vstack_Inr [OF b] a
  show "st_bands acc' = st_bands acc @ kept_rows (fst run) (map (map fst) (band (fst run) ! spin))"
    and "st_kptss acc' = st_kptss acc @ kept_rows (fst run) (kpointlist (fst run))"
    by (simp_all add: kept_rows_def)
qed

lemma stack_runs_Inr:
  "stack_runs nbands spin acc rs = Inr acc' \<Longrightarrow>
     st_bands acc' = st_bands acc
        @ concat (map (\<lambda>r. kept_rows (fst r) (map (map fst) (band (fst r) ! spin))) rs)
   \<and> st_kptss acc' = st_kptss acc @ concat (map (\<lambda>r. kept_rows (fst r) (kpointlist (fst r))) rs)"
proof (induction rs arbitrary: acc)
  case Nil
  then show ?case by simp
next
  case (Cons r rs)
  from Cons.prems obtain mid where
    1: "stack_run nbands spin acc r = Inr mid" and 2: "stack_runs nbands spin mid rs = Inr acc'"
    by (auto simp: bindE_eq_Inr)
  from Cons.IH [OF 2] stack_run_Inr [OF 1] show ?case by simp
qed

lemma map_zip_fst:
  "length xs \<le> length ys \<Longrightarrow> map (\<lambda>r. f (fst r)) (zip xs ys) = map f xs"
proof (induction xs arbitrary: ys)
  case Nil
  then show ?case by simp
next
  case (Cons x xs)
  then show ?case by (cases ys) simp_all
qed

lemma stack_spin_Inr:
  assumes "stack_spin nbands runs efs spin = Inr s" and "length runs \<le> length efs"
  shows "st_bands s = concat (map (\<lambda>v. kept_rows v (map (map fst) (band v ! spin))) runs)"
    and "st_kptss s = concat (map (\<lambda>v. kept_rows v (kpointlist v)) runs)"
proof -
  from assms(1) obtain acc where
    a: "stack_runs nbands spin (stacked_init nbands) (zip runs efs) = Inr acc"
    and s: "st_bands s = drop 1 (st_bands acc)" "st_kptss s = drop 1 (st_kptss acc)"
    unfolding stack_spin_def bindE_eq_Inr by auto
  from stack_runs_Inr [OF a] s
  show "st_bands s = concat (map (\<lambda>v. kept_rows v (map (map fst) (band v ! spin))) runs)"
    and "st_kptss s = concat (map (\<lambda>v. kept_rows v (kpointlist v)) runs)"
    by (simp_all add: stacked_init_def
          map_zip_fst [OF assms(2), of "\<lambda>v. kept_rows v (map (map fst) (band v ! spin))"]
          map_zip_fst [OF assms(2), of "\<lambda>v. kept_rows v (kpointlist v)"])
qed

lemma get_bandgap_multi_rows:
  assumes "get_bandgap_multi runs efermi = Inr st"
  shows "self_kpts st = concat (map (\<lambda>v. kept_rows v (kpointlist v)) runs)"
    and "spin < length (self_band st) \<Longrightarrow>
           self_band st ! spin
             = concat (map (\<lambda>v. kept_rows v (map (map fst) (band v ! spin))) runs)"
proof -
  from assms obtain efs where ef: "efermi = FermiList efs"
    by (cases efermi) (simp_all add: get_bandgap_multi_def)
  from assms ef have le: "length runs \<le> length efs"
    by (auto simp: get_bandgap_multi_def split: if_splits)
  from assms ef le have
    "\<exists>(first :: vasprun) per_spin.
        mapE (stack_spin (NBANDS first) runs efs) [0..<ISPIN first] = Inr per_spin
      \<and> per_spin \<noteq> []
      \<and> self_kpts st = st_kptss (last per_spin)
      \<and> self_band st = map st_bands per_spin"
    unfolding get_bandgap_multi_def Let_def
    by (auto simp: bindE_eq_Inr split: if_splits) blast
  then obtain first :: vasprun and per_spin where
    ps: "mapE (stack_spin (NBANDS first) runs efs) [0..<ISPIN first] = Inr per_spin"
    and ne: "per_spin \<noteq> []"
    and k: "self_kpts st = st_kptss (last per_spin)"
    and b: "self_band st = map st_bands per_spin"
    by blast
  from ps have len: "length per_spin = ISPIN first"
    and each: "\<And>s. s < ISPIN first \<Longrightarrow> stack_spin (NBANDS first) runs efs s = Inr (per_spin ! s)"
    by (auto simp: mapE_eq_Inr)
  from ne len have "ISPIN first - 1 < ISPIN first" by (cases per_spin) auto
  from stack_spin_Inr(2) [OF each [OF this] le] ne len k
  show "self_kpts st = concat (map (\<lambda>v. kept_rows v (kpointlist v)) runs)"
    by (simp add: last_conv_nth)
  show "self_band st ! spin = concat (map (\<lambda>v. kept_rows v (map (map fst) (band v ! spin))) runs)"
    if "spin < length (self_band st)"
    using that stack_spin_Inr(1) [OF each [of spin] le] b len by simp
qed

lemma band_stack_run_Inr:
  assumes "band_stack_run nbands spin efs i acc run = Inr acc'"
  shows "i < length efs"
    and "fst acc' = fst acc
           @ map (map (\<lambda>e. e - efs ! i)) (kept_rows run (map (map fst) (spin_plane run spin)))"
    and "snd acc' = snd acc @ kept_rows run (kpointlist run)"
proof -
  from assms obtain plane ef bands where
    p: "py_index (band run) spin = Inr plane"
    and e: "py_index efs (int i) = Inr ef"
    and b: "np_vstack nbands (fst acc) (row_width (NBANDS run) plane)
              (map (map (\<lambda>e. e - ef))
                 (drop (count_nonzero_weights (weights run)) (map (map fst) plane))) = Inr bands"
    and a: "acc' = (bands, snd acc @ drop (count_nonzero_weights (weights run)) (kpointlist run))"
    unfolding band_stack_run_def Let_def bindE_eq_Inr by auto
  from e show "i < length efs" by (simp add: py_index_nat_Inr)
  from e have "ef = efs ! i" by (simp add: py_index_nat_Inr)
  with py_index_Inr_plane [OF p] np_vstack_Inr [OF b] a
  show "fst acc' = fst acc
           @ map (map (\<lambda>e. e - efs ! i)) (kept_rows run (map (map fst) (spin_plane run spin)))"
    and "snd acc' = snd acc @ kept_rows run (kpointlist run)"
    by (simp_all add: kept_rows_def spin_plane_def)
qed

lemma band_stack_runs_Inr:
  "band_stack_runs nbands spin efs i acc rs = Inr acc' \<Longrightarrow>
     fst acc' = fst acc
        @ concat (map (\<lambda>r. map (map (\<lambda>e. e - snd r))
                              (kept_rows (fst r) (map (map fst) (spin_plane (fst r) spin))))
                   (zip rs (drop i efs)))
   \<and> snd acc' = snd acc @ concat (map (\<lambda>v. kept_rows v (kpointlist v)) rs)
   \<and> (rs \<noteq> [] \<longrightarrow> i + length rs \<le> length efs)"
proof (induction rs arbitrary: i acc)
  case Nil
  then show ?case by simp
next
  case (Cons r rs)
  from Cons.prems obtain mid where
    1: "band_stack_run nbands spin efs i acc r = Inr mid"
    and 2: "band_stack_runs nbands spin efs (Suc i) mid rs = Inr acc'"
    by (auto simp: bindE_eq_Inr)
  note step = band_stack_run_Inr [OF 1]
  from step(1) have d: "drop i efs = efs ! i # drop (Suc i) efs"
    by (simp add: Cons_nth_drop_Suc)
  from Cons.IH [OF 2] step show ?case
    by (cases "rs = []") (auto simp: d)
qed

text \<open>
  C9. In the multiple-run path of \<^verbatim>\<open>get_bandgap\<close>, \<^verbatim>\<open>self.kpts\<close> and every spin plane
  of \<^verbatim>\<open>self.band\<close> are the concatenation, run by run, of the rows from index
  \<^verbatim>\<open>count_nonzero(weights)\<close> onward (\<open>kept_rows\<close>). In the multiple-run path of
  \<^verbatim>\<open>_generate_band\<close> the same holds of \<^verbatim>\<open>kpts\<close> and of \<^verbatim>\<open>band\<close>, whose rows are
  moreover shifted by the run's own Fermi level.
\<close>

theorem multi_run_keeps_rows_after_weighted:
  "(get_bandgap_multi runs efermi = Inr st \<longrightarrow>
      self_kpts st = concat (map (\<lambda>v. kept_rows v (kpointlist v)) runs)
    \<and> (\<forall>s<length (self_band st).
          self_band st ! s = concat (map (\<lambda>v. kept_rows v (map (map fst) (band v ! s))) runs)))
 \<and> (generate_band_list n_self runs (FermiList efs) spin = Inr ((band_arr, kpts), path) \<longrightarrow>
      length runs \<le> length efs
    \<and> kpts = concat (map (\<lambda>v. kept_rows v (kpointlist v)) runs)
    \<and> band_arr = concat (map (\<lambda>r. map (map (\<lambda>e. e - snd r))
                                     (kept_rows (fst r) (map (map fst) (spin_plane (fst r) spin))))
                          (zip runs efs)))"
proof (intro conjI impI)
  assume m: "get_bandgap_multi runs efermi = Inr st"
  show "self_kpts st = concat (map (\<lambda>v. kept_rows v (kpointlist v)) runs)"
    by (rule get_bandgap_multi_rows(1) [OF m])
  show "\<forall>s<length (self_band st).
          self_band st ! s = concat (map (\<lambda>v. kept_rows v (map (map fst) (band v ! s))) runs)"
    using get_bandgap_multi_rows(2) [OF m] by blast
next
  assume g: "generate_band_list n_self runs (FermiList efs) spin = Inr ((band_arr, kpts), path)"
  then have
    "\<exists>nbands stacked.
        band_stack_runs nbands spin efs 0 ([replicate nbands 0], [(0, 0, 0)]) runs = Inr stacked
      \<and> band_arr = drop 1 (fst stacked) \<and> kpts = drop 1 (snd stacked)"
    unfolding generate_band_list_def Let_def
    by (auto simp: bindE_eq_Inr split: if_splits)
  then obtain nbands stacked where
    s: "band_stack_runs nbands spin efs 0 ([replicate nbands 0], [(0, 0, 0)]) runs = Inr stacked"
    and r: "band_arr = drop 1 (fst stacked)" "kpts = drop 1 (snd stacked)"
    by blast
  from band_stack_runs_Inr [OF s] r
  show "length runs \<le> length efs"
    and "kpts = concat (map (\<lambda>v. kept_rows v (kpointlist v)) runs)"
    and "band_arr = concat (map (\<lambda>r. map (map (\<lambda>e. e - snd r))
                                     (kept_rows (fst r) (map (map fst) (spin_plane (fst r) spin))))
                          (zip runs efs))"
    by (cases "runs = []"; simp)+
qed

lemma example_runs_bandgap:
  "get_bandgap_multi [example_hybrid_run, example_run] (FermiList [1, 1]) =
     Inr \<lparr>self_kpts = [(0, 0, 0), (1, 0, 0), (0, 0, 0), (1, 0, 0)],
          self_band = [[[-1, 1/2, 2], [-6/5, 1/4, 3/2], [-1, 1/2, 2], [-6/5, 1/4, 3/2]]],
          self_co_occ = [[[1, 1, 0], [1, 1, 0], [1, 1, 0], [1, 1, 0]]],
          self_co_occ_b = [[[True, True, False], [True, True, False],
                            [True, True, False], [True, True, False]]],
          self_gaps =
            [\<lparr>vbm_idx = 0, cbm_idx = 1, direct = False,
              vbm_edge = \<lparr>homo_energy = 1/2, homo_occ = 1, lumo_energy = 2, lumo_occ = 0\<rparr>,
              cbm_edge = \<lparr>homo_energy = 1/4, homo_occ = 1, lumo_energy = 3/2, lumo_occ = 0\<rparr>,
              vbm_kpt = (0, 0, 0), cbm_kpt = (1, 0, 0), bandgap = 1,
              direct_gap = Some (5/4)\<rparr>]\<rparr>"
  by code_simp

lemma example_runs_stacked:
  "band_stack_runs 3 0 [1, 1/2] 0 ([replicate 3 0], [(0, 0, 0)]) [example_hybrid_run, example_run]
     = Inr ([[0, 0, 0], [-2, -(1/2), 1], [-(11/5), -(3/4), 1/2], [-(3/2), 0, 3/2],
             [-(17/10), -(1/4), 1]],
            [(0, 0, 0), (0, 0, 0), (1, 0, 0), (0, 0, 0), (1, 0, 0)])"
  by code_simp

lemma example_runs_band:
  "generate_band_list 2 [example_hybrid_run, example_run] (FermiList [1, 1/2]) 0 =
     Inr (([[-2, -(1/2), 1], [-(11/5), -(3/4), 1/2], [-(3/2), 0, 3/2], [-(17/10), -(1/4), 1]],
           [(0, 0, 0), (1, 0, 0), (0, 0, 0), (1, 0, 0)]),
          [0, 1, 2, 3])"
proof -
  have n: "NBANDS example_hybrid_run = 3"
    and c: "cell_final_1 example_hybrid_run = ((1, 0, 0), (0, 1, 0), (0, 0, 1))"
    by (simp_all add: example_hybrid_run_def)
  show ?thesis
    unfolding generate_band_list_def
    by (simp add: py_index_def n c example_runs_stacked dot_lattice_def kpt_distance_def Let_def
          del: band_stack_runs.simps)
qed

theorem multi_run_keeps_rows_after_weighted_witness:
  "(\<exists>st. get_bandgap_multi [example_hybrid_run, example_run] (FermiList [1, 1]) = Inr st
      \<and> self_kpts st = [(0, 0, 0), (1, 0, 0), (0, 0, 0), (1, 0, 0)]
      \<and> self_kpts st
          = concat (map (\<lambda>v. kept_rows v (kpointlist v)) [example_hybrid_run, example_run])
      \<and> self_band st ! 0
          = concat (map (\<lambda>v. kept_rows v (map (map fst) (band v ! 0)))
                      [example_hybrid_run, example_run]))
 \<and> (\<exists>band_arr kpts path.
        generate_band_list 2 [example_hybrid_run, example_run] (FermiList [1, 1/2]) 0
          = Inr ((band_arr, kpts), path)
      \<and> kpts = [(0, 0, 0), (1, 0, 0), (0, 0, 0), (1, 0, 0)]
      \<and> kpts = concat (map (\<lambda>v. kept_rows v (kpointlist v)) [example_hybrid_run, example_run])
      \<and> band_arr
          = concat (map (\<lambda>r. map (map (\<lambda>e. e - snd r))
                                (kept_rows (fst r) (map (map fst) (spin_plane (fst r) 0))))
                      (zip [example_hybrid_run, example_run] [1, 1/2])))"
proof -
  note fact = multi_run_keeps_rows_after_weighted
    [of "[example_hybrid_run, example_run]" "FermiList [1, 1]"
        "projr (get_bandgap_multi [example_hybrid_run, example_run] (FermiList [1, 1]))"
        2 "[1, 1/2]" 0
        "[[-2, -(1/2), 1], [-(11/5), -(3/4), 1/2], [-(3/2), 0, 3/2], [-(17/10), -(1/4), 1]]"
        "[(0, 0, 0), (1, 0, 0), (0, 0, 0), (1, 0, 0)]" "[0, 1, 2, 3]"]
  have m: "get_bandgap_multi [example_hybrid_run, example_run] (FermiList [1, 1])
             = Inr (projr (get_bandgap_multi [example_hybrid_run, example_run] (FermiList [1, 1])))"
    by (simp add: example_runs_bandgap)
  from fact m example_runs_band
  have a: "self_kpts (projr (get_bandgap_multi [example_hybrid_run, example_run] (FermiList [1, 1])))
             = concat (map (\<lambda>v. kept_rows v (kpointlist v)) [example_hybrid_run, example_run])"
    and b: "\<forall>s<length (self_band (projr (get_bandgap_multi [example_hybrid_run, example_run]
                                            (FermiList [1, 1])))).
              self_band (projr (get_bandgap_multi [example_hybrid_run, example_run]
                                 (FermiList [1, 1]))) ! s
                = concat (map (\<lambda>v. kept_rows v (map (map fst) (band v ! s)))
                            [example_hybrid_run, example_run])"
    and c: "[(0, 0, 0), (1, 0, 0), (0, 0, 0), (1, 0, 0)]
              = concat (map (\<lambda>v. kept_rows v (kpointlist v)) [example_hybrid_run, example_run])"
    and d: "[[-2, -(1/2), 1], [-(11/5), -(3/4), 1/2], [-(3/2), 0, 3/2], [-(17/10), -(1/4), 1]]
              = concat (map (\<lambda>r. map (map (\<lambda>e. e - snd r))
                                (kept_rows (fst r) (map (map fst) (spin_plane (fst r) 0))))
                      (zip [example_hybrid_run, example_run] [1, 1/2]))"
    by blast+
  have len: "0 < length (self_band (projr (get_bandgap_multi [example_hybrid_run, example_run]
                                            (FermiList [1, 1]))))"
    by (simp add: example_runs_bandgap)
  from b len have b0:
    "self_band (projr (get_bandgap_multi [example_hybrid_run, example_run] (FermiList [1, 1]))) ! 0
       = concat (map (\<lambda>v. kept_rows v (map (map fst) (band v ! 0)))
                   [example_hybrid_run, example_run])"
    by blast
  have k: "self_kpts (projr (get_bandgap_multi [example_hybrid_run, example_run] (FermiList [1, 1])))
             = [(0, 0, 0), (1, 0, 0), (0, 0, 0), (1, 0, 0)]"
    by (simp add: example_runs_bandgap)
  from m k a b0 have first: "\<exists>st.
        get_bandgap_multi [example_hybrid_run, example_run] (FermiList [1, 1]) = Inr st
      \<and> self_kpts st = [(0, 0, 0), (1, 0, 0), (0, 0, 0), (1, 0, 0)]
      \<and> self_kpts st
          = concat (map (\<lambda>v. kept_rows v (kpointlist v)) [example_hybrid_run, example_run])
      \<and> self_band st ! 0
          = concat (map (\<lambda>v. kept_rows v (map (map fst) (band v ! 0)))
                      [example_hybrid_run, example_run])"
    by blast
  from example_runs_band c d first show ?thesis by blast
qed

section \<open>Loading a list of runs: a missing file\<close>

lemma load_vaspruns_missing:
  assumes "\<forall>x\<in>set pre. check_exist (xml_path path x)
                        \<and> read_vasprun (xml_path path x) = Inr (ld x)"
      and "\<not> check_exist (xml_path path m)"
  shows "load_vaspruns check_exist read_vasprun path acc (pre @ m # post)
           = Inr (acc @ map ld pre, [[''Cannot find:'', xml_path path m]])"
  using assms by (induction pre arbitrary: acc) simp_all

lemma load_outcars_missing:
  assumes "\<forall>x\<in>set pre. check_exist (outcar_path path x)
                        \<and> read_OUTCAR (outcar_path path x) = Inr (ld x)"
      and "\<not> check_exist (outcar_path path m)"
  shows "load_outcars check_exist read_OUTCAR path acc (pre @ m # post)
           = Inr (acc @ map ld pre, [[''Cannot find:'', outcar_path path m]])"
  using assms by (induction pre arbitrary: acc) simp_all

lemma py_index_0: "xs \<noteq> [] \<Longrightarrow> py_index xs 0 = Inr (hd xs)"
  by (cases xs) (simp_all add: py_index_def)

text \<open>
  When a later file is missing the code does what it sets out to do. (a) If the .xml files
  named before the first missing one exist and load as \<open>ld_v\<close> says, and there is at least
  one of them, then with \<^verbatim>\<open>outcars=None\<close> \<^verbatim>\<open>__init__\<close> prints the one message, keeps
  exactly those runs and returns. (b) If the loop over the .xml files ended with at least
  one run, \<^verbatim>\<open>outcars\<close> is a list as long as \<^verbatim>\<open>vaspruns\<close>, and the OUTCAR files named
  before the first missing one exist and load as \<open>ld_o\<close> says, then \<^verbatim>\<open>__init__\<close> prints
  the message for the missing OUTCAR, keeps the OUTCARs before it and returns.
\<close>

lemma init_list_later_file_missing:
  "(pre \<noteq> []
    \<and> (\<forall>x\<in>set pre. check_exist (xml_path path x) \<and> read_vasprun (xml_path path x) = Inr (ld_v x))
    \<and> \<not> check_exist (xml_path path m)
    \<longrightarrow> init_list check_exist read_vasprun read_OUTCAR get_info path (pre @ m # post) OutcarNone
          = ([[''Cannot find:'', xml_path path m]],
             Inr \<lparr>attr_vasprun = map ld_v pre, attr_info = get_info (ld_v (hd pre)),
                  attr_outcar = None, attr_useOUTCAR = None\<rparr>))
 \<and> (load_vaspruns check_exist read_vasprun path [] vaspruns = Inr (runs, out1)
    \<and> runs \<noteq> []
    \<and> length (opre @ om # opost) = length vaspruns
    \<and> (\<forall>x\<in>set opre. check_exist (outcar_path path x)
                       \<and> read_OUTCAR (outcar_path path x) = Inr (ld_o x))
    \<and> \<not> check_exist (outcar_path path om)
    \<longrightarrow> init_list check_exist read_vasprun read_OUTCAR get_info path vaspruns
            (OutcarNames (opre @ om # opost))
          = (out1 @ [[''Cannot find:'', outcar_path path om]],
             Inr \<lparr>attr_vasprun = runs, attr_info = get_info (hd runs),
                  attr_outcar = Some (map ld_o opre),
                  attr_useOUTCAR = (if opre = [] then None else Some True)\<rparr>))"
proof (intro conjI impI)
  assume a: "pre \<noteq> []
    \<and> (\<forall>x\<in>set pre. check_exist (xml_path path x) \<and> read_vasprun (xml_path path x) = Inr (ld_v x))
    \<and> \<not> check_exist (xml_path path m)"
  then have l: "load_vaspruns check_exist read_vasprun path [] (pre @ m # post)
                  = Inr (map ld_v pre, [[''Cannot find:'', xml_path path m]])"
    using load_vaspruns_missing [of pre check_exist path read_vasprun ld_v m "[]" post] by simp
  from a have "py_index (map ld_v pre) 0 = Inr (ld_v (hd pre))"
    by (simp add: py_index_0 hd_map)
  with l show "init_list check_exist read_vasprun read_OUTCAR get_info path (pre @ m # post)
                 OutcarNone
          = ([[''Cannot find:'', xml_path path m]],
             Inr \<lparr>attr_vasprun = map ld_v pre, attr_info = get_info (ld_v (hd pre)),
                  attr_outcar = None, attr_useOUTCAR = None\<rparr>)"
    by (simp add: init_list_def)
next
  assume b: "load_vaspruns check_exist read_vasprun path [] vaspruns = Inr (runs, out1)
    \<and> runs \<noteq> []
    \<and> length (opre @ om # opost) = length vaspruns
    \<and> (\<forall>x\<in>set opre. check_exist (outcar_path path x)
                       \<and> read_OUTCAR (outcar_path path x) = Inr (ld_o x))
    \<and> \<not> check_exist (outcar_path path om)"
  then have o: "load_outcars check_exist read_OUTCAR path [] (opre @ om # opost)
                  = Inr (map ld_o opre, [[''Cannot find:'', outcar_path path om]])"
    using load_outcars_missing [of opre check_exist path read_OUTCAR ld_o om "[]" opost] by simp
  from b have "py_index runs 0 = Inr (hd runs)" by (simp add: py_index_0)
  with b o show "init_list check_exist read_vasprun read_OUTCAR get_info path vaspruns
            (OutcarNames (opre @ om # opost))
          = (out1 @ [[''Cannot find:'', outcar_path path om]],
             Inr \<lparr>attr_vasprun = runs, attr_info = get_info (hd runs),
                  attr_outcar = Some (map ld_o opre),
                  attr_useOUTCAR = (if opre = [] then None else Some True)\<rparr>)"
    by (simp add: init_list_def)
qed

text \<open>
  C7 on the code. \<^verbatim>\<open>VASP(path='.', vaspruns=['vasprun'])\<close> in a directory without
  \<^verbatim>\<open>vasprun.xml\<close>: the loop prints the message and breaks with nothing loaded, and
  line 33, \<^verbatim>\<open>self.get_info(self.vasprun[0])\<close>, raises IndexError on the empty list. The
  readers and \<^verbatim>\<open>get_info\<close> are never reached, whatever they are.
\<close>

theorem init_list_first_xml_missing:
  "init_list (\<lambda>file. False) read_vasprun read_OUTCAR get_info ''.'' [''vasprun''] OutcarNone
   = ([[''Cannot find:'', ''./vasprun.xml'']], Inl IndexError)"
  by (simp add: init_list_def xml_path_def py_index_def)

text \<open>
  The same for any list whose first .xml file is missing, and any \<^verbatim>\<open>outcars\<close>.
\<close>

lemma init_list_first_missing:
  assumes "\<not> check_exist (xml_path path m)"
  shows "init_list check_exist read_vasprun read_OUTCAR get_info path (m # post) outcars
           = ([[''Cannot find:'', xml_path path m]], Inl IndexError)"
  using assms by (simp add: init_list_def py_index_def)

text \<open>An instance of the two cases where a later file is missing.\<close>

lemma init_list_later_file_missing_example:
  "init_list (\<lambda>file. file = ''./a.xml'' \<or> file = ''./OUTCAR_a'')
     (\<lambda>file. Inr file) (\<lambda>file. Inr file) length ''.'' [''a'', ''b''] OutcarNone
   = ([[''Cannot find:'', ''./b.xml'']],
      Inr \<lparr>attr_vasprun = [''./a.xml''], attr_info = 7, attr_outcar = None,
           attr_useOUTCAR = None\<rparr>)
 \<and> init_list (\<lambda>file. file = ''./a.xml'' \<or> file = ''./OUTCAR_a'')
     (\<lambda>file. Inr file) (\<lambda>file. Inr file) length ''.'' [''a'', ''b'']
     (OutcarNames [''OUTCAR_a'', ''OUTCAR_b''])
   = ([[''Cannot find:'', ''./b.xml''], [''Cannot find:'', ''./OUTCAR_b'']],
      Inr \<lparr>attr_vasprun = [''./a.xml''], attr_info = 7, attr_outcar = Some [''./OUTCAR_a''],
           attr_useOUTCAR = Some True\<rparr>)"
  by (simp add: init_list_def xml_path_def outcar_path_def py_index_def)

section \<open>Orbital labels: what a malformed label raises\<close>

lemma py_split_no_sep: "sep \<notin> set s \<Longrightarrow> py_split sep s = [s]"
  by (induction s) auto

text \<open>
  C8, as the code has it. A string that is neither in \<^verbatim>\<open>lm_list\<close> nor a shortcut of
  line 386 raises \<^verbatim>\<open>Exception\<close> with a free-text argument tuple in style 1, in style 3,
  and for every style value the function does not support; the texts are the ones
  given. Style 2 has no such check: a label without a colon fails the unpacking of
  \<^verbatim>\<open>lm.split(':')\<close> with ValueError.
\<close>

theorem generate_pband_malformed_label:
  assumes "s \<notin> set lm_list" and "s \<notin> set lm_shortcut_1"
  shows "(style \<noteq> 2 \<longrightarrow>
           generate_pband style is_list lm_list atoms (LmStr s)
             = Inl (GenericException
                 (if style = 1
                  then [''WARNING:'', s, ''is not recognizable. lm must be'']
                         @ lm_list @ lm_shortcut_1
                  else if style = 3
                  then [''WARNING:'', s, ''is not recognizable. lm must be''] @ lm_shortcut_3
                  else [''mcu currently supports only style: 0,1,2''])))
       \<and> (style = 2 \<and> CHR '':'' \<notin> set s \<longrightarrow>
           generate_pband style is_list lm_list atoms (LmStr s) = Inl ValueError)"
proof -
  from assms(2) have "s \<notin> set lm_shortcut_3"
    by (auto simp: lm_shortcut_1_def lm_shortcut_3_def)
  with assms show ?thesis
    by (auto simp: generate_pband_def parse_atom_label_def py_split_no_sep)
qed

text \<open>
  C8 as stated fails in style 2: the malformed label \<^verbatim>\<open>'xyz'\<close> raises ValueError, not
  \<^verbatim>\<open>Exception\<close> with a message.
\<close>

theorem generate_pband_style2_counterexample:
  "''xyz'' \<notin> set [''s'', ''py'', ''pz'', ''px'']
   \<and> ''xyz'' \<notin> set lm_shortcut_1
   \<and> generate_pband 2 False [''s'', ''py'', ''pz'', ''px''] [''C''] (LmStr ''xyz'') = Inl ValueError
   \<and> (\<nexists>msg. generate_pband 2 False [''s'', ''py'', ''pz'', ''px''] [''C''] (LmStr ''xyz'')
               = Inl (GenericException msg))"
  by (simp add: generate_pband_def parse_atom_label_def lm_shortcut_1_def)

theorem generate_pband_malformed_label_witness:
  "''xyz'' \<notin> set [''s'', ''py'', ''pz'', ''px'']
   \<and> ''xyz'' \<notin> set lm_shortcut_1
   \<and> generate_pband 1 False [''s'', ''py'', ''pz'', ''px''] [''C''] (LmStr ''xyz'')
       = Inl (GenericException
               ([''WARNING:'', ''xyz'', ''is not recognizable. lm must be'']
                 @ [''s'', ''py'', ''pz'', ''px''] @ lm_shortcut_1))
   \<and> generate_pband 3 False [''s'', ''py'', ''pz'', ''px''] [''C''] (LmStr ''xyz'')
       = Inl (GenericException
               ([''WARNING:'', ''xyz'', ''is not recognizable. lm must be''] @ lm_shortcut_3))
   \<and> generate_pband 2 False [''s'', ''py'', ''pz'', ''px''] [''C''] (LmStr ''xyz'') = Inl ValueError"
proof -
  have a: "''xyz'' \<notin> set [''s'', ''py'', ''pz'', ''px'']"
    and b: "''xyz'' \<notin> set lm_shortcut_1"
    by (simp_all add: lm_shortcut_1_def)
  from generate_pband_malformed_label [OF a b, of 1 False "[''C'']"]
       generate_pband_malformed_label [OF a b, of 3 False "[''C'']"]
       generate_pband_malformed_label [OF a b, of 2 False "[''C'']"]
       a b
  show ?thesis by simp
qed

section \<open>The radial function\<close>



section \<open>The angular functions: which (l, mr) have a branch\<close>

lemma returns_array_theta:
  assumes "length phi = length cost"
      and "func \<in> set [''s'', ''pz'', ''px'', ''py'', ''dz2'', ''dxz'', ''dyz'', ''dx2-y2'', ''pxy'',
                        ''fz3'', ''fxz2'', ''fyz2'', ''fz(x2-y2)'', ''fxyz'', ''fx(x2-3y2)'',
                        ''fy(3x2-y2)'']"
  shows "returns_array (length cost) (theta func cost phi)"
  using assms
  by (auto simp: returns_array_def theta_def arr_scale_def arr_mul_def arr_cos_def arr_sin_def
        arr_pow_def sint_of_def)

lemma returns_array_addE:
  "returns_array n a \<Longrightarrow> returns_array n b \<Longrightarrow> returns_array n (addE a b)"
  by (auto simp: returns_array_def addE_def arr_add_def)






lemma returns_array_negE: "returns_array n a \<Longrightarrow> returns_array n (negE a)"
  by (auto simp: returns_array_def negE_def arr_neg_def)

text \<open>
  The two sp3d branches whose product sign is missing raise TypeError once their argument
  is evaluated.
\<close>

lemma theta_lmr_sp3d_calls_float:
  assumes "length phi = length cost" and "mr = 4 \<or> mr = 5"
  shows "theta_lmr (-4) mr cost phi = Inl TypeError"
proof -
  note th = returns_array_theta [OF assms(1)]
  have a: "returns_array (length cost) (addE (theta ''pz'' cost phi) (theta ''dz2'' cost phi))"
    by (intro returns_array_addE th) simp_all
  have b: "returns_array (length cost)
             (addE (negE (theta ''pz'' cost phi)) (theta ''dz2'' cost phi))"
    by (intro returns_array_addE returns_array_negE th) simp_all
  from assms(2) a b show ?thesis
    unfolding theta_lmr_def Let_def
    by (auto simp: returns_array_def)
qed




section \<open>The projection function: the nudge and the radius\<close>

lemmas fl_defs = fl1_def fl2_def fadd_def fsub_def fmul_def fdiv_def fsqrt_def farccos_def flt_def

lemmas vec_defs = vdot_def vnorm_def vcross_def vdiv_def vsub_def

lemma transform_default: "transform default_x_axis default_z_axis = Inr default_axes"
  by (simp add: transform_def angle_def fl_defs vec_defs Let_def default_x_axis_def
        default_z_axis_def default_axes_def)

lemma g_r_frame_coincident:
  "g_r_frame coincident_grid origin_site default_axes
     = ([(Some (- (1 / 10 ^ 5)), Some (1 / 10 ^ 5), Some (- (1 / 10 ^ 5))), (Some 0, Some 0, Some 0)],
        [Some (sqrt (3 / 10 ^ 10)), Some 0])"
  by (simp add: g_r_frame_def rotate_def fl_defs vec_defs Let_def coincident_grid_def
        origin_site_def default_axes_def)

text \<open>
  When no radius is below 1e-8 the radii are used as they are, and none of them is zero.
\<close>

lemma g_r_frame_far_from_site:
  assumes "\<not> list_ex (\<lambda>n. flt n (Some (1 / 10 ^ 8)))
               (map (\<lambda>g. vnorm (rotate T (vsub g site))) grids_coor)"
  shows "snd (g_r_frame grids_coor site T) = map (\<lambda>g. vnorm (rotate T (vsub g site))) grids_coor"
    and "Some 0 \<notin> set (snd (g_r_frame grids_coor site T))"
proof -
  show eq: "snd (g_r_frame grids_coor site T)
              = map (\<lambda>g. vnorm (rotate T (vsub g site))) grids_coor"
    using assms by (simp add: g_r_frame_def Let_def comp_def)
  have "flt (Some 0) (Some (1 / 10 ^ 8))" by (simp add: flt_def)
  with assms show "Some 0 \<notin> set (snd (g_r_frame grids_coor site T))"
    unfolding eq by (auto simp: list_ex_iff)
qed

text \<open>
  C4 on the code. The grid holds the site and the point 1e-5 further along every
  coordinate. The first radius is zero, so the site is nudged; the nudged site is the
  second grid point, whose recomputed radius is zero. Line 288 divides zero by zero
  there, and for the \<open>pz\<close> projection (\<open>l = 1\<close>, \<open>mr = 1\<close>) the returned array holds the
  nan.
\<close>

theorem g_r_nudge_onto_grid_point:
  "transform default_x_axis default_z_axis = Inr default_axes
   \<and> snd (g_r_frame coincident_grid origin_site default_axes) ! 1 = Some 0
   \<and> (\<exists>v. g_r AUTOA coincident_grid origin_site 1 1 1 (Some 1) default_x_axis default_z_axis ''B''
            = Inr [Some v, None])"
proof -
  have "\<exists>v. g_r AUTOA coincident_grid origin_site 1 1 1 (Some 1) default_x_axis default_z_axis ''B''
            = Inr [Some v, None]"
    by (simp add: g_r_def transform_default g_r_frame_coincident Let_def theta_lmr_def theta_def
          R_r_def arr_mul_def arr_scale_def phi_point_def fpow_3_2_def fl_defs)
  then show ?thesis
    by (simp add: transform_default g_r_frame_coincident)
qed

section \<open>The .amn file: writing and reading back\<close>





















end
